theory Spec2Isabelle
  imports Main "HOL-Library.AList" "HOL-Library.Sublist"
begin

section \<open>Exceptions\<close>

text \<open>
  The Python exceptions the two services can meet. \<open>KeyboardInterrupt\<close> stands for the
  exceptions that derive from \<open>BaseException\<close> only, which \<open>except Exception\<close> does not
  catch; \<open>OtherException\<close> is any other \<open>Exception\<close> a library call raises.
\<close>

datatype exn =
    TypeError
  | KeyError
  | UnsupportedValueConversionType
  | error_perm
  | OtherException string
  | KeyboardInterrupt

fun is_Exception :: "exn \<Rightarrow> bool" where
  "is_Exception KeyboardInterrupt = False"
| "is_Exception e = True"

section \<open>Rows and tables\<close>

text \<open>
  A column identifier is a name or a positional index. A cell holds the raw text read
  from the logger file or an already parsed timestamp (represented by its instant).
  A \<open>Row\<close> is an ordered mapping: it is represented by the list of its items, in
  insertion order, and a \<open>DataSet\<close> is a list of rows.
\<close>

datatype column = ColName string | ColIndex int

datatype cell = Raw string | DateTime int

type_synonym row = "(column \<times> cell) list"

type_synonym table = "row list"

text \<open>
  \<open>row[name] = v\<close> on an ordered mapping is \<^const>\<open>AList.update\<close>: the value is replaced
  where the key stands, and a new key is appended. \<open>Row(pairs)\<close> inserts the pairs one
  after the other into an empty mapping.
\<close>

definition Row :: "(column \<times> cell) list \<Rightarrow> row" where
  "Row pairs = fold (\<lambda>(name, v) r. AList.update name v r) pairs []"

definition is_row :: "row \<Rightarrow> bool" where
  "is_row r = distinct (map fst r)"

subsection \<open>\<open>make_data_set_backup\<close>\<close>

definition make_data_set_backup :: "table \<Rightarrow> table" where
  "make_data_set_backup data = map (\<lambda>row. Row (map (\<lambda>(name, v). (name, v)) row)) data"

subsection \<open>\<open>make_export_data_set\<close>\<close>

text \<open>
  The loop of \<open>make_export_data_set\<close>, with \<open>data_to_export\<close> as the accumulator.
\<close>

fun export_rows :: "table \<Rightarrow> column list \<Rightarrow> table \<Rightarrow> table" where
  "export_rows [] columns_to_export data_to_export = data_to_export"
| "export_rows (row # rest) columns_to_export data_to_export =
     export_rows rest columns_to_export
       (data_to_export @ [Row (filter (\<lambda>(name, v). name \<in> set columns_to_export) row)])"

text \<open>
  \<open>columns_to_export\<close> is \<open>None\<close> when the configuration declares no \<open>export_columns\<close>;
  then \<open>name in columns_to_export\<close> raises a \<open>TypeError\<close> at the first item of the first
  row that has one.
\<close>

definition make_export_data_set :: "table \<Rightarrow> column list option \<Rightarrow> exn + table" where
  "make_export_data_set data columns_to_export =
     (case columns_to_export of
        Some cols \<Rightarrow> Inr (export_rows data cols [])
      | None \<Rightarrow>
          if list_all (\<lambda>row. row = []) data then Inr (export_rows data [] [])
          else Inl TypeError)"

subsection \<open>\<open>cr.update_column_names\<close>\<close>

text \<open>
  Modelled from the spec: \<open>cr.update_column_names\<close> (package campbellsciparser), called
  by \<open>process_array_ids\<close> with \<open>match_row_lengths=True\<close> and
  \<open>get_mismatched_row_lengths=True\<close>; its source is not under src/. Section 4.1: column
  names are assigned positionally from the schema's \<open>column_names\<close>; a row whose field
  count does not equal the schema's column count is routed, unmodified, to the mismatch
  set rather than raising an error. The output is \<open>(named_rows, mismatched_rows)\<close>.
\<close>

fun assign_column_names :: "column list \<Rightarrow> table \<Rightarrow> table \<times> table \<Rightarrow> table \<times> table" where
  "assign_column_names column_names [] (named, mismatched) = (named, mismatched)"
| "assign_column_names column_names (row # rest) (named, mismatched) =
     (if length row = length column_names
      then assign_column_names column_names rest
             (named @ [Row (zip column_names (map snd row))], mismatched)
      else assign_column_names column_names rest (named, mismatched @ [row]))"

definition update_column_names :: "table \<Rightarrow> column list \<Rightarrow> table \<times> table" where
  "update_column_names data column_names = assign_column_names column_names data ([], [])"

section \<open>The column value converter\<close>

subsection \<open>\<open>cr.parse_time\<close>\<close>

text \<open>
  \<open>cr.parse_time\<close> belongs to the campbellsciparser package; it is a parameter of the
  model. Its arguments, in this order: \<open>data\<close>, \<open>time_zone\<close>, \<open>time_format_args_library\<close>,
  \<open>time_parsed_column\<close>, \<open>time_columns\<close>, \<open>replace_time_column\<close> (\<open>None\<close> when the call
  does not pass it) and \<open>to_utc\<close>. It returns the parsed table or raises.
\<close>

type_synonym parse_time_fn =
  "table \<Rightarrow> string option \<Rightarrow> string list option \<Rightarrow> column \<Rightarrow> column list option
     \<Rightarrow> column option \<Rightarrow> bool \<Rightarrow> exn + table"

definition convert_data_time_values ::
  "parse_time_fn \<Rightarrow> table \<Rightarrow> column \<Rightarrow> column list option \<Rightarrow> string option
     \<Rightarrow> string list option \<Rightarrow> bool \<Rightarrow> exn + table" where
  "convert_data_time_values parse_time data column_name value_time_columns time_zone
       time_format_args_library to_utc =
     parse_time data time_zone time_format_args_library column_name value_time_columns
       (Some column_name) to_utc"

subsection \<open>\<open>common.update_column_values_generator\<close>\<close>

text \<open>
  Modelled from the spec: \<open>common.update_column_values_generator\<close> (services/common.py is
  not under src/). Section 4.2, merge step: walk the baseline in original order, and for
  every row replace the target column's value with the corresponding parsed value; all
  other columns are copied unchanged from the baseline. The rows of \<open>data_new\<close> hold the
  parsed values; they correspond to the rows of \<open>data_old\<close> by position.
\<close>

definition update_column_values_generator :: "table \<Rightarrow> table \<Rightarrow> table" where
  "update_column_values_generator data_old data_new =
     map (\<lambda>(row_old, row_new). fold (\<lambda>(name, v) r. AList.update name v r) row_new row_old)
       (zip data_old data_new)"

subsection \<open>\<open>restore_data_after_data_time_conversion\<close>\<close>

text \<open>
  The inner loop over the items of one converted row: \<open>converted_values\<close> is the row
  under construction and \<open>data_converted\<close> the list built so far. The append stands
  inside the \<open>if\<close>, so a row without the converted column contributes nothing. The keys
  of a row are distinct, so the condition holds for at most one item of a row.
\<close>

fun restore_row_items :: "column \<Rightarrow> row \<Rightarrow> row \<Rightarrow> table \<Rightarrow> table" where
  "restore_row_items converted_column_name [] converted_values data_converted = data_converted"
| "restore_row_items converted_column_name ((converted_name, converted_v) # rest)
       converted_values data_converted =
     (if converted_name = converted_column_name
      then (let converted_values' = AList.update converted_column_name converted_v converted_values
            in restore_row_items converted_column_name rest converted_values'
                 (data_converted @ [converted_values']))
      else restore_row_items converted_column_name rest converted_values data_converted)"

fun restore_rows :: "column \<Rightarrow> table \<Rightarrow> table \<Rightarrow> table" where
  "restore_rows converted_column_name [] data_converted = data_converted"
| "restore_rows converted_column_name (row # rest) data_converted =
     restore_rows converted_column_name rest
       (restore_row_items converted_column_name row [] data_converted)"

definition restore_data_after_data_time_conversion :: "table \<Rightarrow> table \<Rightarrow> column \<Rightarrow> table" where
  "restore_data_after_data_time_conversion data data_backup converted_column_name =
     update_column_values_generator data_backup (restore_rows converted_column_name data [])"

subsection \<open>\<open>convert_data_column_values\<close>\<close>

record convert_column_info =
  value_type :: "string option"
  value_time_columns :: "column list option"

text \<open>
  The loop over \<open>values_to_convert.items()\<close>, with \<open>data_converted\<close> as the accumulator.
  Every conversion reads the original \<open>data\<close> and merges into \<open>data_backup\<close>.
\<close>

fun convert_columns ::
  "parse_time_fn \<Rightarrow> table \<Rightarrow> table \<Rightarrow> string option \<Rightarrow> string list option \<Rightarrow> bool
     \<Rightarrow> (column \<times> convert_column_info) list \<Rightarrow> table \<Rightarrow> exn + table" where
  "convert_columns parse_time data data_backup time_zone time_format_args_library to_utc []
       data_converted = Inr data_converted"
| "convert_columns parse_time data data_backup time_zone time_format_args_library to_utc
       ((column_name, convert_column_info) # rest) data_converted =
     (if value_type convert_column_info = Some ''time''
      then (case convert_data_time_values parse_time data column_name
                   (value_time_columns convert_column_info) time_zone
                   time_format_args_library to_utc of
              Inl e \<Rightarrow> Inl e
            | Inr array_id_data_converted_values_all \<Rightarrow>
                convert_columns parse_time data data_backup time_zone time_format_args_library
                  to_utc rest
                  (restore_data_after_data_time_conversion array_id_data_converted_values_all
                     data_backup column_name))
      else Inl UnsupportedValueConversionType)"

definition convert_data_column_values ::
  "parse_time_fn \<Rightarrow> table \<Rightarrow> (column \<times> convert_column_info) list \<Rightarrow> string option
     \<Rightarrow> string list option \<Rightarrow> bool \<Rightarrow> exn + table" where
  "convert_data_column_values parse_time data values_to_convert time_zone
       time_format_args_library to_utc =
     convert_columns parse_time data (make_data_set_backup data) time_zone
       time_format_args_library to_utc values_to_convert []"

section \<open>Effects\<close>

text \<open>
  Both services talk to the outside world: the logger files and the output files, the
  campbellsciparser reader and writer, and (for the uploader) the process-wide FTP
  session. Every such call is recorded as an event of the trace, with its arguments. The
  outside world is a parameter of the model: it answers a call from the history of all
  calls so far (the call itself is the last event), with a result or an exception.
  \<open>export_to_csv\<close> takes \<open>export_header\<close> and \<open>include_time_zone\<close> as options: \<open>None\<close> when
  the call leaves the argument to the library's default.
\<close>

datatype event =
    ReadArrayIdsData "string option" int "(string \<times> string) list"
  | ReadTableData "string option" "int option" "int option"
  | ExportToCsv table string "bool option" "bool option"
  | Makedirs string
  | OpenRb string
  | Remove string
  | Pwd
  | Cwd string
  | Mkd string
  | Nlst
  | StorBinary string string
  | Quit
  | Print exn

text \<open>
  \<open>ReadArrayIdsData infile_path first_line_num array_id_names\<close> (always with
  \<open>fix_floats=True\<close>), \<open>ReadTableData infile_path header_row first_line_num\<close>,
  \<open>ExportToCsv data outfile_path export_header include_time_zone\<close>,
  \<open>StorBinary command local_file\<close>. The pure library functions (time parsing and
  \<open>os.path\<close>) are fields of the environment as well.
\<close>

record env =
  unit_reply :: "event list \<Rightarrow> exn + unit"
  pwd_reply :: "event list \<Rightarrow> exn + string"
  nlst_reply :: "event list \<Rightarrow> exn + string list"
  table_reply :: "event list \<Rightarrow> exn + table"
  arrays_reply :: "event list \<Rightarrow> exn + (string \<times> table) list"
  cr_parse_time :: parse_time_fn
  os_abspath :: "string \<Rightarrow> string"
  os_join :: "string list \<Rightarrow> string"
  os_splitext_ext :: "string \<Rightarrow> string"
  os_dirname :: "string \<Rightarrow> string"
  os_home :: string

text \<open>
  The state of a run: the configuration object in memory (Python mutates it in place,
  and every function that takes \<open>cfg\<close> takes this one object), the configuration in
  durable storage as this run has written it (\<open>None\<close>: not written), and the trace.
\<close>

record 'c state =
  cfg :: 'c
  saved :: "'c option"
  trace :: "event list"

type_synonym ('c, 'a) action = "'c state \<Rightarrow> 'c state \<times> (exn + 'a)"

definition returns :: "'a \<Rightarrow> ('c, 'a) action" where
  "returns a s = (s, Inr a)"

definition raises :: "exn \<Rightarrow> ('c, 'a) action" where
  "raises e s = (s, Inl e)"

definition lift_result :: "exn + 'a \<Rightarrow> ('c, 'a) action" where
  "lift_result r s = (s, r)"

text \<open>Sequencing: an exception of the first action ends the sequence.\<close>

definition and_then :: "('c, 'a) action \<Rightarrow> ('a \<Rightarrow> ('c, 'b) action) \<Rightarrow> ('c, 'b) action" where
  "and_then m f s = (case m s of (s', Inl e) \<Rightarrow> (s', Inl e) | (s', Inr a) \<Rightarrow> f a s')"

primrec for_each :: "'a list \<Rightarrow> ('a \<Rightarrow> ('c, unit) action) \<Rightarrow> ('c, unit) action" where
  "for_each [] body = returns ()"
| "for_each (x # xs) body = and_then (body x) (\<lambda>_. for_each xs body)"

definition call :: "(event list \<Rightarrow> exn + 'a) \<Rightarrow> event \<Rightarrow> ('c, 'a) action" where
  "call reply ev s = (let s' = s\<lparr>trace := trace s @ [ev]\<rparr> in (s', reply (trace s')))"

text \<open>
  Modelled from the spec: \<open>utils.save_config\<close> (services/utils.py is not under src/)
  persists the in-memory checkpoint structure to durable storage.
\<close>

definition save_config :: "('c, unit) action" where
  "save_config s = (s\<lparr>saved := Some (cfg s)\<rparr>, Inr ())"

text \<open>\<open>d.get(key, default)\<close> on an optional key, and the truth value of an optional string.\<close>

definition get_or :: "'a option \<Rightarrow> 'a \<Rightarrow> 'a" where
  "get_or v d = (case v of None \<Rightarrow> d | Some x \<Rightarrow> x)"

definition truthy :: "string option \<Rightarrow> string option" where
  "truthy v = (case v of None \<Rightarrow> None | Some x \<Rightarrow> if x = [] then None else Some x)"

section \<open>The formatter (services/cr10xformatter.py)\<close>

subsection \<open>Configuration\<close>

text \<open>
  The configuration is a tree of dictionaries. A key read with \<open>d[key]\<close> is a field; a key
  read with \<open>d.get(key)\<close> is an optional field (\<open>None\<close> when absent). Dictionaries keyed by
  site, location and array id are association lists in the order of the file. A schema
  declares its \<open>column_names\<close> (section 3 of the specification).
\<close>

record array_id_info =
  ai_name :: "string option"
  ai_column_names :: "column list"
  ai_export_columns :: "column list option"
  ai_include_time_zone :: "bool option"
  ai_time_columns :: "column list option"
  ai_time_parsed_column_name :: "column option"
  ai_to_utc :: "bool option"
  ai_convert_data_column_values :: "(column \<times> convert_column_info) list option"

record location_info =
  li_array_ids :: "(string \<times> array_id_info) list option"
  li_file_path :: "string option"
  li_line_num :: "int option"
  li_time_zone :: "string option"
  li_time_format_args_library :: "string list option"

record site_info =
  si_locations :: "(string \<times> location_info) list"

record formatter_config =
  fc_data_output_dir :: "string option"
  fc_sites :: "(string \<times> site_info) list"

subsection \<open>\<open>process_array_ids\<close>\<close>

text \<open>The body of the loop over \<open>array_ids_info.items()\<close>.\<close>

definition process_array_id ::
  "env \<Rightarrow> string \<Rightarrow> string \<Rightarrow> (string \<times> table) list \<Rightarrow> string option \<Rightarrow> string list option
     \<Rightarrow> string \<Rightarrow> string \<Rightarrow> string \<times> array_id_info \<Rightarrow> ('c, unit) action" where
  "process_array_id env site location data time_zone time_format_args_library output_dir
       file_ext = (\<lambda>(array_id, array_id_info).
     (let array_name = get_or (ai_name array_id_info) array_id in
      case map_of data array_name of
        None \<Rightarrow> raises TypeError
      | Some array_id_data \<Rightarrow>
          if array_id_data = [] then returns ()
          else
            (let column_names = ai_column_names array_id_info;
                 export_columns = ai_export_columns array_id_info;
                 include_time_zone = get_or (ai_include_time_zone array_id_info) False;
                 time_columns = ai_time_columns array_id_info;
                 time_parsed_column_name =
                   get_or (ai_time_parsed_column_name array_id_info) (ColName ''Timestamp'');
                 to_utc = get_or (ai_to_utc array_id_info) False;
                 column_values_to_convert = ai_convert_data_column_values array_id_info;
                 array_id_file = array_name @ file_ext;
                 array_id_file_path =
                   os_join env [os_abspath env output_dir, site, location, array_id_file];
                 array_id_mismatches_file = array_name @ '' Mismatches'' @ file_ext;
                 array_id_mismatches_file_path =
                   os_join env [os_abspath env output_dir, site, location,
                     array_id_mismatches_file];
                 (array_id_data_with_column_names, mismatches) =
                   update_column_names array_id_data column_names
             in and_then
                  (lift_result
                     (case column_values_to_convert of
                        None \<Rightarrow> Inr array_id_data_with_column_names
                      | Some values_to_convert \<Rightarrow>
                          if values_to_convert = [] then Inr array_id_data_with_column_names
                          else convert_data_column_values (cr_parse_time env)
                                 array_id_data_with_column_names values_to_convert time_zone
                                 time_format_args_library to_utc))
                  (\<lambda>array_id_data_with_column_names.
                and_then
                  (lift_result
                     (cr_parse_time env array_id_data_with_column_names time_zone
                        time_format_args_library time_parsed_column_name time_columns None
                        to_utc))
                  (\<lambda>array_id_data_time_converted.
                and_then
                  (lift_result (make_export_data_set array_id_data_time_converted export_columns))
                  (\<lambda>data_to_export.
                and_then
                  (call (unit_reply env)
                     (ExportToCsv data_to_export array_id_file_path (Some True)
                        (Some include_time_zone)))
                  (\<lambda>_.
                if mismatches \<noteq> []
                then call (unit_reply env)
                       (ExportToCsv mismatches array_id_mismatches_file_path None None)
                else returns ())))))))"

definition process_array_ids ::
  "env \<Rightarrow> string \<Rightarrow> string \<Rightarrow> (string \<times> table) list \<Rightarrow> string option \<Rightarrow> string list option
     \<Rightarrow> string \<Rightarrow> (string \<times> array_id_info) list \<Rightarrow> string \<Rightarrow> ('c, unit) action" where
  "process_array_ids env site location data time_zone time_format_args_library output_dir
       array_ids_info file_ext =
     for_each array_ids_info
       (process_array_id env site location data time_zone time_format_args_library output_dir
          file_ext)"

subsection \<open>Calling \<open>process_array_ids\<close> with keyword arguments\<close>

text \<open>
  A Python call with keyword arguments binds each keyword to the parameter of that name.
  A keyword that names no parameter raises a \<open>TypeError\<close> (unexpected keyword argument),
  and so does a parameter left without an argument; the body does not start then.
\<close>

datatype pyarg =
    PyStr string
  | PyOptStr "string option"
  | PyOptStrs "string list option"
  | PyData "(string \<times> table) list"
  | PyArrayIds "(string \<times> array_id_info) list"

definition bind_keywords :: "string list \<Rightarrow> (string \<times> pyarg) list \<Rightarrow> exn + (string \<Rightarrow> pyarg option)" where
  "bind_keywords params kwargs =
     (if list_ex (\<lambda>k. k \<notin> set params) (map fst kwargs) then Inl TypeError
      else if list_ex (\<lambda>p. p \<notin> set (map fst kwargs)) params then Inl TypeError
      else Inr (map_of kwargs))"

definition process_array_ids_params :: "string list" where
  "process_array_ids_params =
     [''site'', ''location'', ''data'', ''time_zone'', ''time_format_args_library'',
      ''output_dir'', ''array_ids_info'', ''file_ext'']"

fun arg_str :: "pyarg option \<Rightarrow> string option" where
  "arg_str (Some (PyStr x)) = Some x"
| "arg_str _ = None"

fun arg_opt_str :: "pyarg option \<Rightarrow> string option option" where
  "arg_opt_str (Some (PyOptStr x)) = Some x"
| "arg_opt_str _ = None"

fun arg_opt_strs :: "pyarg option \<Rightarrow> string list option option" where
  "arg_opt_strs (Some (PyOptStrs x)) = Some x"
| "arg_opt_strs _ = None"

fun arg_data :: "pyarg option \<Rightarrow> (string \<times> table) list option" where
  "arg_data (Some (PyData x)) = Some x"
| "arg_data _ = None"

fun arg_array_ids :: "pyarg option \<Rightarrow> (string \<times> array_id_info) list option" where
  "arg_array_ids (Some (PyArrayIds x)) = Some x"
| "arg_array_ids _ = None"

text \<open>
  The call \<open>process_array_ids(**kwargs)\<close>: the keywords are bound to the parameters of
  the \<open>def\<close> (line 203), then the body runs on the bound arguments.
\<close>

definition call_process_array_ids :: "env \<Rightarrow> (string \<times> pyarg) list \<Rightarrow> ('c, unit) action" where
  "call_process_array_ids env kwargs =
     (case bind_keywords process_array_ids_params kwargs of
        Inl e \<Rightarrow> raises e
      | Inr bound \<Rightarrow>
          (case arg_str (bound ''site'') of None \<Rightarrow> raises TypeError | Some site \<Rightarrow>
           case arg_str (bound ''location'') of None \<Rightarrow> raises TypeError | Some location \<Rightarrow>
           case arg_data (bound ''data'') of None \<Rightarrow> raises TypeError | Some data \<Rightarrow>
           case arg_opt_str (bound ''time_zone'') of None \<Rightarrow> raises TypeError | Some time_zone \<Rightarrow>
           case arg_opt_strs (bound ''time_format_args_library'') of
             None \<Rightarrow> raises TypeError | Some time_format_args_library \<Rightarrow>
           case arg_str (bound ''output_dir'') of None \<Rightarrow> raises TypeError | Some output_dir \<Rightarrow>
           case arg_array_ids (bound ''array_ids_info'') of
             None \<Rightarrow> raises TypeError | Some array_ids_info \<Rightarrow>
           case arg_str (bound ''file_ext'') of None \<Rightarrow> raises TypeError | Some file_ext \<Rightarrow>
             process_array_ids env site location data time_zone time_format_args_library
               output_dir array_ids_info file_ext))"

subsection \<open>\<open>process_location\<close>\<close>

text \<open>\<open>cfg['sites'][site]['locations'][location]['line_num'] = new_line_num\<close>.\<close>

definition set_location_line_num ::
  "string \<Rightarrow> string \<Rightarrow> int \<Rightarrow> formatter_config \<Rightarrow> exn + formatter_config" where
  "set_location_line_num site location new_line_num c =
     (case map_of (fc_sites c) site of
        None \<Rightarrow> Inl KeyError
      | Some site_info \<Rightarrow>
          (case map_of (si_locations site_info) location of
             None \<Rightarrow> Inl KeyError
           | Some location_info \<Rightarrow>
               Inr (c\<lparr>fc_sites :=
                 AList.update site
                   (site_info\<lparr>si_locations :=
                      AList.update location (location_info\<lparr>li_line_num := Some new_line_num\<rparr>)
                        (si_locations site_info)\<rparr>)
                   (fc_sites c)\<rparr>)))"

definition assign_location_line_num :: "string \<Rightarrow> string \<Rightarrow> int \<Rightarrow> (formatter_config, unit) action" where
  "assign_location_line_num site location new_line_num s =
     (case set_location_line_num site location new_line_num (cfg s) of
        Inl e \<Rightarrow> (s, Inl e)
      | Inr c \<Rightarrow> (s\<lparr>cfg := c\<rparr>, Inr ()))"

text \<open>The loop \<open>for array_id, array_id_data in data.items(): num_of_new_rows += len(array_id_data)\<close>.\<close>

fun count_new_rows :: "(string \<times> table) list \<Rightarrow> int \<Rightarrow> int" where
  "count_new_rows [] num_of_new_rows = num_of_new_rows"
| "count_new_rows ((array_id, array_id_data) # rest) num_of_new_rows =
     count_new_rows rest (num_of_new_rows + int (length array_id_data))"

text \<open>
  \<open>process_location\<close> returns \<open>cfg\<close>, the configuration object of the state. The call of
  \<open>process_array_ids\<close> is written with the keywords of lines 403 to 412.
  \<open>os.path.abspath(None)\<close> raises a \<open>TypeError\<close>.
\<close>

definition process_location ::
  "env \<Rightarrow> string \<Rightarrow> string \<Rightarrow> string \<Rightarrow> location_info \<Rightarrow> bool
     \<Rightarrow> (formatter_config, formatter_config) action" where
  "process_location env output_dir site location location_info track =
     (let array_ids_info = get_or (li_array_ids location_info) [];
          file_path = li_file_path location_info;
          line_num = get_or (li_line_num location_info) 0;
          time_zone = li_time_zone location_info;
          time_format_args_library = li_time_format_args_library location_info;
          array_id_names =
            map (\<lambda>(array_id, array_id_info). (array_id, get_or (ai_name array_id_info) array_id))
              array_ids_info
      in and_then (call (arrays_reply env) (ReadArrayIdsData file_path line_num array_id_names))
           (\<lambda>data.
         (let num_of_new_rows = count_new_rows data 0 in
          if num_of_new_rows = 0 then (\<lambda>s. (s, Inr (cfg s)))
          else
            (case file_path of
               None \<Rightarrow> raises TypeError
             | Some path \<Rightarrow>
                 (let file_ext = os_splitext_ext env (os_abspath env path) in
                  and_then
                    (call_process_array_ids env
                       [(''site'', PyStr site),
                        (''location'', PyStr location),
                        (''array_ids_data'', PyData data),
                        (''time_zone'', PyOptStr time_zone),
                        (''time_format_args_library'', PyOptStrs time_format_args_library),
                        (''output_dir'', PyStr output_dir),
                        (''array_ids_info'', PyArrayIds array_ids_info),
                        (''file_ext'', PyStr file_ext)])
                    (\<lambda>_.
                  and_then
                    (if track
                     then (if num_of_new_rows > 0
                           then assign_location_line_num site location
                                  (line_num + num_of_new_rows)
                           else returns ())
                     else returns ())
                    (\<lambda>_ s. (s, Inr (cfg s)))))))))"

subsection \<open>\<open>process_sites\<close> of the formatter\<close>

record formatter_args =
  fa_site :: "string option"
  fa_location :: "string option"
  fa_track :: bool

definition process_locations ::
  "env \<Rightarrow> string \<Rightarrow> string \<Rightarrow> bool \<Rightarrow> (string \<times> location_info) list
     \<Rightarrow> (formatter_config, unit) action" where
  "process_locations env output_dir site track locations =
     for_each locations (\<lambda>(location, location_info).
       and_then (process_location env output_dir site location location_info track)
         (\<lambda>_. returns ()))"

definition formatter_process_sites :: "env \<Rightarrow> formatter_args \<Rightarrow> (formatter_config, unit) action" where
  "formatter_process_sites env args s =
     (let output_dir = (case fc_data_output_dir (cfg s) of Some d \<Rightarrow> d | None \<Rightarrow> os_home env);
          sites = fc_sites (cfg s)
      in and_then
           (case truthy (fa_site args) of
              Some site \<Rightarrow>
                (case map_of sites site of
                   None \<Rightarrow> raises KeyError
                 | Some site_info \<Rightarrow>
                     (let locations = si_locations site_info in
                      case truthy (fa_location args) of
                        Some location \<Rightarrow>
                          (case map_of locations location of
                             None \<Rightarrow> raises KeyError
                           | Some location_info \<Rightarrow>
                               and_then
                                 (process_location env output_dir site location location_info
                                    (fa_track args))
                                 (\<lambda>_. returns ()))
                      | None \<Rightarrow> process_locations env output_dir site (fa_track args) locations))
            | None \<Rightarrow>
                for_each sites (\<lambda>(site, site_info).
                  process_locations env output_dir site (fa_track args) (si_locations site_info)))
           (\<lambda>_. if fa_track args then save_config else returns ())
           s)"

section \<open>The uploader (services/ftpuploader.py)\<close>

subsection \<open>Configuration\<close>

record file_info =
  fi_name :: "string option"
  fi_file_path :: "string option"
  fi_line_num :: "int option"
  fi_header_row :: "int option"

record upload_location =
  ul_files :: "(string \<times> file_info) list"

record upload_site =
  us_locations :: "(string \<times> upload_location) list"

record uploader_config =
  uc_data_output_dir :: "string option"
  uc_sites :: "(string \<times> upload_site) list"

record uploader_args =
  ua_site :: "string option"
  ua_location :: "string option"
  ua_file :: "string option"

subsection \<open>\<open>cd_tree\<close>\<close>

text \<open>\<open>s.split(sep)\<close> for a one-character separator, and \<open>sep.join(parts)\<close>.\<close>

fun py_split :: "char \<Rightarrow> string \<Rightarrow> string list" where
  "py_split sep [] = [[]]"
| "py_split sep (x # xs) =
     (if x = sep then [] # py_split sep xs
      else (case py_split sep xs of [] \<Rightarrow> [[x]] | w # ws \<Rightarrow> (x # w) # ws))"

fun py_join :: "string \<Rightarrow> string list \<Rightarrow> string" where
  "py_join sep [] = []"
| "py_join sep [w] = w"
| "py_join sep (w # ws) = w @ sep @ py_join sep ws"

text \<open>\<open>"/".join(current_dir.split("/")[:-1])\<close>.\<close>

definition parent_dir :: "string \<Rightarrow> string" where
  "parent_dir current_dir = py_join ''/'' (butlast (py_split CHR ''/'' current_dir))"

text \<open>
  \<open>cd_tree\<close> on the process-wide session: enter the directory; on \<open>ftplib.error_perm\<close>
  ensure the parent first, then create the directory and enter it. Any other exception,
  and any exception of \<open>mkd\<close> or of the second \<open>cwd\<close>, propagates.
\<close>

function cd_tree :: "env \<Rightarrow> string \<Rightarrow> ('c, unit) action" where
  "cd_tree env current_dir s =
     (if current_dir \<noteq> []
      then (case call (unit_reply env) (Cwd current_dir) s of
              (s1, Inr u) \<Rightarrow> (s1, Inr ())
            | (s1, Inl e) \<Rightarrow>
                if e = error_perm
                then (case cd_tree env (parent_dir current_dir) s1 of
                        (s2, Inl e') \<Rightarrow> (s2, Inl e')
                      | (s2, Inr u) \<Rightarrow>
                          and_then (call (unit_reply env) (Mkd current_dir))
                            (\<lambda>_. call (unit_reply env) (Cwd current_dir)) s2)
                else (s1, Inl e))
      else (s, Inr ()))"
  by pat_completeness auto
termination
proof -
  have split_ne: "py_split sep t \<noteq> []" for sep t
    by (induction t) (auto split: list.splits)
  have join_split: "length (py_join [sep] (py_split sep t)) = length t" for sep t
  proof (induction t)
    case Nil
    then show ?case by simp
  next
    case (Cons x xs)
    obtain w ws where w: "py_split sep xs = w # ws"
      using split_ne [of sep xs] by (cases "py_split sep xs") auto
    with Cons show ?case
      by (cases ws) (auto simp: w)
  qed
  have butlast_many: "length (py_join [sep] (butlast ws)) < length (py_join [sep] ws)"
    if "length ws \<ge> 2" for sep ws
    using that
  proof (induction "[sep]" ws rule: py_join.induct)
    case 1
    then show ?case by simp
  next
    case (2 w)
    then show ?case by simp
  next
    case (3 w v va)
    show ?case
    proof (cases va)
      case Nil
      then show ?thesis by simp
    next
      case (Cons a as)
      with 3 show ?thesis by simp
    qed
  qed
  have shorter: "length (parent_dir d) < length d" if ne: "d \<noteq> []" for d
  proof (cases "length (py_split CHR ''/'' d) \<ge> 2")
    case True
    from butlast_many [OF True, of "CHR ''/''"] join_split [of "CHR ''/''" d] show ?thesis
      by (simp add: parent_dir_def)
  next
    case False
    with split_ne [of "CHR ''/''" d] obtain w where w: "py_split CHR ''/'' d = [w]"
      by (cases "py_split CHR ''/'' d") (auto simp: not_le less_Suc_eq)
    with ne show ?thesis by (simp add: parent_dir_def)
  qed
  show ?thesis
    by (relation "measure (\<lambda>(env, current_dir, s). length current_dir)")
       (auto simp: shorter)
qed

declare cd_tree.simps [simp del]

subsection \<open>\<open>transfer_rows\<close>\<close>

text \<open>
  \<open>cfg['sites'][site]['locations'][location]['files'][file]['line_num'] = new_line_num\<close>.
\<close>

definition set_file_line_num ::
  "string \<Rightarrow> string \<Rightarrow> string \<Rightarrow> int \<Rightarrow> uploader_config \<Rightarrow> exn + uploader_config" where
  "set_file_line_num site location file new_line_num c =
     (case map_of (uc_sites c) site of
        None \<Rightarrow> Inl KeyError
      | Some site_info \<Rightarrow>
          (case map_of (us_locations site_info) location of
             None \<Rightarrow> Inl KeyError
           | Some location_info \<Rightarrow>
               (case map_of (ul_files location_info) file of
                  None \<Rightarrow> Inl KeyError
                | Some file_info \<Rightarrow>
                    Inr (c\<lparr>uc_sites :=
                      AList.update site
                        (site_info\<lparr>us_locations :=
                           AList.update location
                             (location_info\<lparr>ul_files :=
                                AList.update file (file_info\<lparr>fi_line_num := Some new_line_num\<rparr>)
                                  (ul_files location_info)\<rparr>)
                             (us_locations site_info)\<rparr>)
                        (uc_sites c)\<rparr>))))"

definition assign_file_line_num ::
  "string \<Rightarrow> string \<Rightarrow> string \<Rightarrow> int \<Rightarrow> (uploader_config, unit) action" where
  "assign_file_line_num site location file new_line_num s =
     (case set_file_line_num site location file new_line_num (cfg s) of
        Inl e \<Rightarrow> (s, Inl e)
      | Inr c \<Rightarrow> (s\<lparr>cfg := c\<rparr>, Inr ()))"

text \<open>
  \<open>os.path.abspath(None)\<close> raises a \<open>TypeError\<close>, and so does \<open>line_num + num_of_new_rows\<close>
  when the file declares no \<open>line_num\<close>. The \<open>with open(...)\<close> block opens the staged file
  and sends it with \<open>STOR\<close> or \<open>APPE\<close>.
\<close>

definition transfer_rows ::
  "env \<Rightarrow> string \<Rightarrow> string \<Rightarrow> string \<Rightarrow> string \<Rightarrow> file_info \<Rightarrow> (uploader_config, unit) action" where
  "transfer_rows env output_dir site location file file_info =
     (let name = get_or (fi_name file_info) file;
          file_path = fi_file_path file_info;
          line_num = fi_line_num file_info;
          header_row = fi_header_row file_info
      in case file_path of
           None \<Rightarrow> raises TypeError
         | Some path \<Rightarrow>
             (let file_ext = os_splitext_ext env (os_abspath env path) in
              and_then (call (table_reply env) (ReadTableData file_path header_row line_num))
                (\<lambda>data.
              (let num_of_new_rows = 0 + int (length data) in
               if num_of_new_rows = 0 then returns ()
               else
                 (let file_name = name @ file_ext;
                      output_file_path =
                        os_join env [os_abspath env output_dir, site, location, file_name]
                  in and_then (call (unit_reply env) (Makedirs (os_dirname env output_file_path)))
                       (\<lambda>_.
                     and_then (call (nlst_reply env) Nlst)
                       (\<lambda>listing.
                     and_then
                       (if file_name \<notin> set listing
                        then and_then
                               (call (unit_reply env)
                                  (ExportToCsv data output_file_path (Some True) None))
                               (\<lambda>_.
                             and_then (call (unit_reply env) (OpenRb output_file_path))
                               (\<lambda>_.
                             call (unit_reply env)
                               (StorBinary (''STOR '' @ file_name) output_file_path)))
                        else and_then
                               (call (unit_reply env)
                                  (ExportToCsv data output_file_path (Some False) None))
                               (\<lambda>_.
                             and_then (call (unit_reply env) (OpenRb output_file_path))
                               (\<lambda>_.
                             call (unit_reply env)
                               (StorBinary (''APPE '' @ file_name) output_file_path))))
                       (\<lambda>_.
                     and_then (call (unit_reply env) (Remove output_file_path))
                       (\<lambda>_.
                     (case line_num of
                        None \<Rightarrow> raises TypeError
                      | Some n \<Rightarrow>
                          assign_file_line_num site location file (n + num_of_new_rows)))))))))))"

subsection \<open>\<open>process_sites\<close> of the uploader\<close>

text \<open>The bodies of the three nested loops over files, locations and sites.\<close>

definition transfer_files ::
  "env \<Rightarrow> string \<Rightarrow> string \<Rightarrow> string \<Rightarrow> string \<Rightarrow> (string \<times> file_info) list
     \<Rightarrow> (uploader_config, unit) action" where
  "transfer_files env output_dir site location location_dir files =
     for_each files (\<lambda>(file, file_info).
       and_then (cd_tree env location_dir) (\<lambda>_.
       and_then (cd_tree env file) (\<lambda>_.
       transfer_rows env output_dir site location file file_info)))"

definition transfer_locations ::
  "env \<Rightarrow> string \<Rightarrow> string \<Rightarrow> string \<Rightarrow> (string \<times> upload_location) list
     \<Rightarrow> (uploader_config, unit) action" where
  "transfer_locations env output_dir site site_dir locations =
     for_each locations (\<lambda>(location, location_info).
       (let files = ul_files location_info in
        and_then (cd_tree env site_dir) (\<lambda>_.
        and_then (cd_tree env location) (\<lambda>_.
        and_then (call (pwd_reply env) Pwd) (\<lambda>location_dir.
        transfer_files env output_dir site location location_dir files)))))"

definition transfer_sites ::
  "env \<Rightarrow> string \<Rightarrow> string \<Rightarrow> (string \<times> upload_site) list \<Rightarrow> (uploader_config, unit) action" where
  "transfer_sites env output_dir root_dir sites =
     for_each sites (\<lambda>(site, site_info).
       (let locations = us_locations site_info in
        and_then (cd_tree env root_dir) (\<lambda>_.
        and_then (cd_tree env site) (\<lambda>_.
        and_then (call (pwd_reply env) Pwd) (\<lambda>site_dir.
        transfer_locations env output_dir site site_dir locations)))))"

text \<open>The body of the \<open>try\<close> statement (lines 140 to 224).\<close>

definition process_sites_try ::
  "env \<Rightarrow> uploader_args \<Rightarrow> string \<Rightarrow> (string \<times> upload_site) list \<Rightarrow> string
     \<Rightarrow> (uploader_config, unit) action" where
  "process_sites_try env args output_dir sites root_dir =
     (case truthy (ua_site args) of
        Some site \<Rightarrow>
          (case map_of sites site of
             None \<Rightarrow> raises KeyError
           | Some site_info \<Rightarrow>
               (let locations = us_locations site_info in
                and_then (cd_tree env site) (\<lambda>_.
                and_then (call (pwd_reply env) Pwd) (\<lambda>site_dir.
                (case truthy (ua_location args) of
                   Some location \<Rightarrow>
                     (case map_of locations location of
                        None \<Rightarrow> raises KeyError
                      | Some location_info \<Rightarrow>
                          (let files = ul_files location_info in
                           and_then (cd_tree env location) (\<lambda>_.
                           and_then (call (pwd_reply env) Pwd) (\<lambda>location_dir.
                           (case truthy (ua_file args) of
                              Some file \<Rightarrow>
                                (case map_of files file of
                                   None \<Rightarrow> raises KeyError
                                 | Some file_info \<Rightarrow>
                                     and_then (cd_tree env file) (\<lambda>_.
                                     transfer_rows env output_dir site location file file_info))
                            | None \<Rightarrow>
                                transfer_files env output_dir site location location_dir files)))))
                 | None \<Rightarrow> transfer_locations env output_dir site site_dir locations)))))
      | None \<Rightarrow> transfer_sites env output_dir root_dir sites)"

text \<open>
  \<open>process_sites\<close>: \<open>session.pwd()\<close> stands before the \<open>try\<close>. \<open>except Exception\<close> prints
  the exception and ends it; the \<open>else\<close> clause saves the configuration; the \<open>finally\<close>
  clause quits the session, also when an exception that is not an \<open>Exception\<close> passes
  through.
\<close>

definition uploader_process_sites :: "env \<Rightarrow> uploader_args \<Rightarrow> (uploader_config, unit) action" where
  "uploader_process_sites env args s =
     (let output_dir = (case uc_data_output_dir (cfg s) of Some d \<Rightarrow> d | None \<Rightarrow> os_home env);
          sites = uc_sites (cfg s)
      in case call (pwd_reply env) Pwd s of
           (s1, Inl e) \<Rightarrow> (s1, Inl e)
         | (s1, Inr root_dir) \<Rightarrow>
             (case process_sites_try env args output_dir sites root_dir s1 of
                (s2, Inl e) \<Rightarrow>
                  if is_Exception e
                  then and_then (call (\<lambda>_. Inr ()) (Print e))
                         (\<lambda>_. call (unit_reply env) Quit) s2
                  else and_then (call (unit_reply env) Quit) (\<lambda>_. raises e) s2
              | (s2, Inr u) \<Rightarrow>
                  and_then save_config (\<lambda>_. call (unit_reply env) Quit) s2))"

section \<open>Reading a location, and an example environment\<close>

text \<open>The call of \<open>cr.read_array_ids_data\<close> that \<open>process_location\<close> makes for a location.\<close>

definition location_read :: "location_info \<Rightarrow> event" where
  "location_read location_info =
     ReadArrayIdsData (li_file_path location_info) (get_or (li_line_num location_info) 0)
       (map (\<lambda>(array_id, array_id_info). (array_id, get_or (ai_name array_id_info) array_id))
          (get_or (li_array_ids location_info) []))"

text \<open>The call of \<open>cr.read_table_data\<close> that \<open>transfer_rows\<close> makes for a file.\<close>

definition file_read :: "file_info \<Rightarrow> event" where
  "file_read file_info =
     ReadTableData (fi_file_path file_info) (fi_header_row file_info) (fi_line_num file_info)"

text \<open>
  An environment in which every call succeeds: the reader returns the given rows, the
  remote listing is the given one, the time parser stamps the parsed column, and paths
  are joined with \<open>/\<close>; every file has the extension \<open>.dat\<close>.
\<close>

definition example_env :: "(string \<times> table) list \<Rightarrow> table \<Rightarrow> string list \<Rightarrow> env" where
  "example_env arrays rows listing =
     \<lparr>unit_reply = (\<lambda>_. Inr ()),
      pwd_reply = (\<lambda>_. Inr ''/''),
      nlst_reply = (\<lambda>_. Inr listing),
      table_reply = (\<lambda>_. Inr rows),
      arrays_reply = (\<lambda>_. Inr arrays),
      cr_parse_time = (\<lambda>data tz lib c tcs rep utc.
         Inr (map (\<lambda>r. AList.update c (DateTime 0) r) data)),
      os_abspath = (\<lambda>p. p),
      os_join = py_join ''/'',
      os_splitext_ext = (\<lambda>p. ''.dat''),
      os_dirname = parent_dir,
      os_home = ''/home''\<rparr>"

text \<open>
  The scenario of section 8 of the specification: ten lines are consumed, three new lines
  of array id 1 arrive for the schema Year, Day, Hour, Temp; two have four fields and one
  has three.
\<close>

definition example_rows :: table where
  "example_rows =
     [[(ColIndex 0, Raw ''2016''), (ColIndex 1, Raw ''122''), (ColIndex 2, Raw ''1200''),
       (ColIndex 3, Raw ''4.5'')],
      [(ColIndex 0, Raw ''2016''), (ColIndex 1, Raw ''122''), (ColIndex 2, Raw ''1300'')],
      [(ColIndex 0, Raw ''2016''), (ColIndex 1, Raw ''122''), (ColIndex 2, Raw ''1400''),
       (ColIndex 3, Raw ''5.0'')]]"

definition example_schema :: array_id_info where
  "example_schema =
     \<lparr>ai_name = Some ''Temperature'',
      ai_column_names = [ColName ''Year'', ColName ''Day'', ColName ''Hour'', ColName ''Temp''],
      ai_export_columns = Some [ColName ''Timestamp'', ColName ''Temp''],
      ai_include_time_zone = None,
      ai_time_columns = Some [ColName ''Year'', ColName ''Day'', ColName ''Hour''],
      ai_time_parsed_column_name = None,
      ai_to_utc = None,
      ai_convert_data_column_values = None\<rparr>"

text \<open>A second schema, whose second conversion asks for a type other than \<open>time\<close>.\<close>

definition example_schema_float :: array_id_info where
  "example_schema_float =
     example_schema
       \<lparr>ai_name := Some ''Humidity'',
        ai_convert_data_column_values :=
          Some [(ColName ''Hour'',
                 \<lparr>value_type = Some ''time'', value_time_columns = Some [ColName ''Hour'']\<rparr>),
                (ColName ''Temp'',
                 \<lparr>value_type = Some ''float'', value_time_columns = None\<rparr>)]\<rparr>"

definition example_location :: location_info where
  "example_location =
     \<lparr>li_array_ids = Some [(''1'', example_schema)],
      li_file_path = Some ''/data/logger.dat'',
      li_line_num = Some 10,
      li_time_zone = Some ''UTC'',
      li_time_format_args_library = Some [''%Y'', ''%j'', ''%H%M'']\<rparr>"

definition example_formatter_config :: formatter_config where
  "example_formatter_config =
     \<lparr>fc_data_output_dir = Some ''/out'',
      fc_sites = [(''siteA'', \<lparr>si_locations = [(''loc1'', example_location)]\<rparr>)]\<rparr>"

text \<open>An uploader configuration with two files; the second one declares no \<open>file_path\<close>.\<close>

definition example_file :: file_info where
  "example_file =
     \<lparr>fi_name = Some ''Foo'', fi_file_path = Some ''/out/siteA/loc1/Foo.dat'',
      fi_line_num = Some 10, fi_header_row = Some 0\<rparr>"

definition example_file_no_path :: file_info where
  "example_file_no_path =
     \<lparr>fi_name = Some ''Bar'', fi_file_path = None, fi_line_num = Some 0, fi_header_row = None\<rparr>"

definition example_uploader_config :: "(string \<times> file_info) list \<Rightarrow> uploader_config" where
  "example_uploader_config files =
     \<lparr>uc_data_output_dir = Some ''/tmp'',
      uc_sites = [(''siteA'', \<lparr>us_locations = [(''loc1'', \<lparr>ul_files = files\<rparr>)]\<rparr>)]\<rparr>"

definition initial_state :: "'c \<Rightarrow> 'c state" where
  "initial_state c = \<lparr>cfg = c, saved = None, trace = []\<rparr>"

section \<open>Frame conditions\<close>

text \<open>
  An action keeps a component of the state when no run of it changes the component; it
  commits a component when every run of it that raises leaves the component unchanged.
\<close>

definition keeps :: "('c state \<Rightarrow> 'x) \<Rightarrow> ('c, 'a) action \<Rightarrow> bool" where
  "keeps f m \<longleftrightarrow> (\<forall>s. f (fst (m s)) = f s)"

definition commits :: "('c state \<Rightarrow> 'x) \<Rightarrow> ('c, 'a) action \<Rightarrow> bool" where
  "commits f m \<longleftrightarrow> (\<forall>s. isl (snd (m s)) \<longrightarrow> f (fst (m s)) = f s)"

section \<open>Properties of rows\<close>

lemma update_fresh_key:
  "k \<notin> fst ` set al \<Longrightarrow> AList.update k v al = al @ [(k, v)]"
  by (induction al) auto

lemma fold_update_distinct:
  "distinct (map fst ps) \<Longrightarrow> fst ` set ps \<inter> fst ` set acc = {} \<Longrightarrow>
   fold (\<lambda>(name, v) r. AList.update name v r) ps acc = acc @ ps"
proof (induction ps arbitrary: acc)
  case Nil
  then show ?case by simp
next
  case (Cons p ps)
  obtain k v where p: "p = (k, v)" by (cases p)
  from Cons.prems have fresh: "k \<notin> fst ` set acc" by (auto simp: p)
  have step: "AList.update k v acc = acc @ [(k, v)]"
    using fresh by (rule update_fresh_key)
  have disj: "fst ` set ps \<inter> fst ` set (acc @ [(k, v)]) = {}"
    using Cons.prems by (auto simp: p)
  have "fold (\<lambda>(name, v) r. AList.update name v r) ps (acc @ [(k, v)]) = (acc @ [(k, v)]) @ ps"
    using Cons.prems disj by (intro Cons.IH) (auto simp: p)
  then show ?case by (simp add: p step)
qed

lemma Row_distinct: "distinct (map fst ps) \<Longrightarrow> Row ps = ps"
  using fold_update_distinct [of ps "[]"] by (simp add: Row_def)

lemma distinct_filter_keys:
  "distinct (map fst r) \<Longrightarrow> distinct (map fst (filter P r))"
  by (induction r) (auto simp: image_iff)

lemma export_rows_eq:
  "list_all is_row data \<Longrightarrow>
   export_rows data cols acc = acc @ map (filter (\<lambda>(name, v). name \<in> set cols)) data"
proof (induction data arbitrary: acc)
  case Nil
  then show ?case by simp
next
  case (Cons row rest)
  from Cons.prems have "distinct (map fst row)" by (simp add: is_row_def)
  then have "Row (filter (\<lambda>(name, v). name \<in> set cols) row) = filter (\<lambda>(name, v). name \<in> set cols) row"
    by (intro Row_distinct distinct_filter_keys)
  with Cons show ?case by simp
qed

lemma assign_column_names_lengths:
  "assign_column_names cn data (named, mismatched) = (named', mismatched') \<Longrightarrow>
   length named' + length mismatched' = length named + length mismatched + length data"
  by (induction cn data "(named, mismatched)" arbitrary: named mismatched rule: assign_column_names.induct)
     (auto split: if_splits)

lemma assign_column_names_mismatched:
  "snd (assign_column_names cn data (named, mismatched)) =
   mismatched @ filter (\<lambda>row. length row \<noteq> length cn) data"
  by (induction cn data "(named, mismatched)" arbitrary: named mismatched rule: assign_column_names.induct)
     auto

lemma assign_column_names_named:
  "fst (assign_column_names cn data (named, mismatched)) =
   named @ map (\<lambda>row. Row (zip cn (map snd row))) (filter (\<lambda>row. length row = length cn) data)"
  by (induction cn data "(named, mismatched)" arbitrary: named mismatched rule: assign_column_names.induct)
     auto

section \<open>Properties of the converter\<close>







lemma convert_columns_unsupported:
  assumes "list_all (\<lambda>(c, i). value_type i = Some ''time''
             \<and> \<not> isl (parse_time data tz lib c (value_time_columns i) (Some c) to_utc)) pre"
    and "value_type info \<noteq> Some ''time''"
  shows "convert_columns parse_time data backup tz lib to_utc (pre @ (column_name, info) # post) dc
           = Inl UnsupportedValueConversionType"
  using assms
  by (induction pre arbitrary: dc)
     (auto simp: convert_data_time_values_def split: sum.splits)

section \<open>Properties of actions and of the formatter\<close>

lemma and_then_Inr: "m s = (s', Inr a) \<Longrightarrow> and_then m f s = f a s'"
  by (simp add: and_then_def)

lemma and_then_Inl: "m s = (s', Inl e) \<Longrightarrow> and_then m f s = (s', Inl e)"
  by (simp add: and_then_def)

lemma call_apply:
  "call reply ev s = (s\<lparr>trace := trace s @ [ev]\<rparr>, reply (trace s @ [ev]))"
  by (simp add: call_def Let_def)

lemma count_new_rows_sum:
  "count_new_rows data n = n + int (sum_list (map (\<lambda>(array_id, array_id_data). length array_id_data) data))"
  by (induction data n rule: count_new_rows.induct) simp_all

lemma array_ids_data_unexpected:
  "''array_ids_data'' \<in> fst ` set kwargs \<Longrightarrow>
   call_process_array_ids env kwargs s = (s, Inl TypeError)"
proof -
  assume "''array_ids_data'' \<in> fst ` set kwargs"
  then have "list_ex (\<lambda>k. k \<notin> set process_array_ids_params) (map fst kwargs)"
    by (force simp: list_ex_iff process_array_ids_params_def)
  then show ?thesis
    by (simp add: call_process_array_ids_def bind_keywords_def raises_def)
qed

lemma process_location_new_rows:
  assumes "arrays_reply env (trace s @ [location_read location_info]) = Inr data"
    and "0 < sum_list (map (\<lambda>(array_id, array_id_data). length array_id_data) data)"
  shows "process_location env output_dir site location location_info track s
           = (s\<lparr>trace := trace s @ [location_read location_info]\<rparr>, Inl TypeError)"
proof -
  have n: "count_new_rows data 0 \<noteq> 0"
    using assms(2) by (subst count_new_rows_sum) linarith
  show ?thesis
    using assms(1) n
    by (simp add: process_location_def Let_def and_then_def call_apply location_read_def
        array_ids_data_unexpected raises_def split: option.splits)
qed

lemma process_location_empty_delta:
  assumes "arrays_reply env (trace s @ [location_read location_info]) = Inr data"
    and "sum_list (map (\<lambda>(array_id, array_id_data). length array_id_data) data) = 0"
  shows "process_location env output_dir site location location_info track s
           = (s\<lparr>trace := trace s @ [location_read location_info]\<rparr>, Inr (cfg s))"
proof -
  have n: "count_new_rows data 0 = 0"
    using assms(2) by (simp add: count_new_rows_sum)
  show ?thesis
    using assms(1) n
    by (simp add: process_location_def Let_def and_then_def call_apply location_read_def)
qed

lemma for_each_append:
  "for_each (xs @ ys) body s = and_then (for_each xs body) (\<lambda>_. for_each ys body) s"
  by (induction xs arbitrary: s)
     (auto simp: and_then_def returns_def split: prod.splits sum.splits)

lemma convert_data_column_values_unsupported:
  assumes "list_all (\<lambda>(c, i). value_type i = Some ''time''
             \<and> \<not> isl (parse_time data tz lib c (value_time_columns i) (Some c) to_utc)) pre"
    and "value_type info \<noteq> Some ''time''"
  shows "convert_data_column_values parse_time data (pre @ (column_name, info) # post) tz lib to_utc
           = Inl UnsupportedValueConversionType"
  unfolding convert_data_column_values_def
  using assms by (rule convert_columns_unsupported)

lemma process_array_id_unsupported:
  assumes "map_of data (get_or (ai_name info) array_id) = Some rows" and "rows \<noteq> []"
    and "ai_convert_data_column_values info = Some (pre @ (column_name, ci) # post)"
    and "value_type ci \<noteq> Some ''time''"
    and "list_all (\<lambda>(c, i). value_type i = Some ''time''
           \<and> \<not> isl (cr_parse_time env (fst (update_column_names rows (ai_column_names info)))
                       time_zone lib c (value_time_columns i) (Some c)
                       (get_or (ai_to_utc info) False))) pre"
  shows "process_array_id env site location data time_zone lib output_dir file_ext (array_id, info) s
           = (s, Inl UnsupportedValueConversionType)"
proof -
  obtain named mismatches where u: "update_column_names rows (ai_column_names info) = (named, mismatches)"
    by (cases "update_column_names rows (ai_column_names info)")
  have "convert_data_column_values (cr_parse_time env) named (pre @ (column_name, ci) # post)
          time_zone lib (get_or (ai_to_utc info) False) = Inl UnsupportedValueConversionType"
    using assms(5,4) unfolding u fst_conv by (rule convert_data_column_values_unsupported)
  then show ?thesis
    using assms(1,2,3)
    by (simp add: process_array_id_def Let_def u and_then_def lift_result_def)
qed

section \<open>What the actions leave unchanged\<close>

lemma keepsD: "keeps f m \<Longrightarrow> f (fst (m s)) = f s"
  by (simp add: keeps_def)

lemma keeps_returns: "keeps f (returns a)"
  by (simp add: keeps_def returns_def)

lemma keeps_raises: "keeps f (raises e)"
  by (simp add: keeps_def raises_def)

lemma keeps_lift_result: "keeps f (lift_result r)"
  by (simp add: keeps_def lift_result_def)

lemma keeps_and_then: "keeps f m \<Longrightarrow> (\<And>a. keeps f (g a)) \<Longrightarrow> keeps f (and_then m g)"
  unfolding keeps_def and_then_def
  by (auto split: prod.splits sum.splits) (metis fst_conv)+

lemma keeps_for_each: "(\<And>x. keeps f (body x)) \<Longrightarrow> keeps f (for_each xs body)"
  by (induction xs) (auto intro: keeps_returns keeps_and_then)

lemma keeps_if: "keeps f a \<Longrightarrow> keeps f b \<Longrightarrow> keeps f (if c then a else b)"
  by simp

lemma keeps_case_option:
  "keeps f a \<Longrightarrow> (\<And>x. keeps f (b x)) \<Longrightarrow> keeps f (case v of None \<Rightarrow> a | Some x \<Rightarrow> b x)"
  by (cases v) simp_all

lemma keeps_case_prod: "(\<And>a b. keeps f (g a b)) \<Longrightarrow> keeps f (case p of (a, b) \<Rightarrow> g a b)"
  by (cases p) simp

lemma keeps_cfg_call: "keeps cfg (call reply ev)"
  by (simp add: keeps_def call_def Let_def)

lemma keeps_saved_call: "keeps saved (call reply ev)"
  by (simp add: keeps_def call_def Let_def)

lemma cd_tree_frame:
  "cfg (fst (cd_tree env d s)) = cfg s \<and> saved (fst (cd_tree env d s)) = saved s"
proof (induction env d s rule: cd_tree.induct)
  case (1 env current_dir s)
  show ?case
    using 1
    by (subst (1 2) cd_tree.simps)
       (auto simp: call_def and_then_def Let_def split: prod.splits sum.splits)
qed

lemma keeps_cfg_cd_tree: "keeps cfg (cd_tree env d)"
  by (simp add: keeps_def cd_tree_frame)

lemma keeps_saved_cd_tree: "keeps saved (cd_tree env d)"
  by (simp add: keeps_def cd_tree_frame)

lemma keeps_saved_assign_file: "keeps saved (assign_file_line_num site location file n)"
  by (simp add: keeps_def assign_file_line_num_def split: sum.splits)

lemmas keeps_intros =
  keeps_returns keeps_raises keeps_lift_result keeps_and_then keeps_for_each keeps_if
  keeps_case_option keeps_case_prod keeps_cfg_call keeps_saved_call keeps_cfg_cd_tree
  keeps_saved_cd_tree keeps_saved_assign_file

lemma keeps_saved_transfer_rows:
  "keeps saved (transfer_rows env output_dir site location file file_info)"
  unfolding transfer_rows_def Let_def
  by (intro keeps_intros)

lemma keeps_saved_transfer_files:
  "keeps saved (transfer_files env output_dir site location location_dir files)"
  unfolding transfer_files_def
  by (intro keeps_intros keeps_saved_transfer_rows)

lemma keeps_saved_transfer_locations:
  "keeps saved (transfer_locations env output_dir site site_dir locations)"
  unfolding transfer_locations_def Let_def
  by (intro keeps_intros keeps_saved_transfer_files)

lemma keeps_saved_transfer_sites:
  "keeps saved (transfer_sites env output_dir root_dir sites)"
  unfolding transfer_sites_def Let_def
  by (intro keeps_intros keeps_saved_transfer_locations)

lemma keeps_saved_process_sites_try:
  "keeps saved (process_sites_try env args output_dir sites root_dir)"
  unfolding process_sites_try_def Let_def
  by (intro keeps_intros keeps_saved_transfer_rows keeps_saved_transfer_files
      keeps_saved_transfer_locations keeps_saved_transfer_sites)


lemma commitsD: "commits f m \<Longrightarrow> isl (snd (m s)) \<Longrightarrow> f (fst (m s)) = f s"
  by (simp add: commits_def)

lemma keeps_commits: "keeps f m \<Longrightarrow> commits f m"
  by (simp add: keeps_def commits_def)

lemma commits_and_then:
  "keeps f m \<Longrightarrow> (\<And>a. commits f (g a)) \<Longrightarrow> commits f (and_then m g)"
  unfolding keeps_def commits_def and_then_def
  by (auto split: prod.splits sum.splits) (metis fst_conv snd_conv sum.disc(1))+

lemma commits_if: "commits f a \<Longrightarrow> commits f b \<Longrightarrow> commits f (if c then a else b)"
  by simp

lemma commits_case_option:
  "commits f a \<Longrightarrow> (\<And>x. commits f (b x)) \<Longrightarrow> commits f (case v of None \<Rightarrow> a | Some x \<Rightarrow> b x)"
  by (cases v) simp_all

lemma commits_assign_file: "commits cfg (assign_file_line_num site location file n)"
  by (simp add: commits_def assign_file_line_num_def split: sum.splits)

lemma commits_cfg_transfer_rows:
  "commits cfg (transfer_rows env output_dir site location file file_info)"
  unfolding transfer_rows_def Let_def
  by (intro commits_case_option commits_and_then commits_if commits_assign_file
        keeps_commits [OF keeps_raises] keeps_commits [OF keeps_returns] keeps_intros)

lemma transfer_rows_advances:
  assumes "table_reply env (trace s @ [file_read file_info]) = Inr data"
    and "transfer_rows env output_dir site location file file_info s = (s', Inr u)"
  shows "if data = [] then cfg s' = cfg s
         else (\<exists>n. fi_line_num file_info = Some n
                \<and> set_file_line_num site location file (n + int (length data)) (cfg s) = Inr (cfg s'))"
  using assms
  by (auto simp: transfer_rows_def Let_def and_then_def call_def returns_def raises_def
      file_read_def assign_file_line_num_def
      split: option.splits sum.splits prod.splits if_splits)

lemma keeps_trace_assign_file: "keeps trace (assign_file_line_num site location file n)"
  by (simp add: keeps_def assign_file_line_num_def split: sum.splits)

lemmas run_defs =
  Let_def and_then_def call_def returns_def raises_def get_or_def truthy_def
  transfer_sites_def transfer_locations_def transfer_files_def transfer_rows_def
  process_sites_try_def assign_file_line_num_def set_file_line_num_def
  example_env_def example_rows_def example_uploader_config_def example_file_def
  example_file_no_path_def initial_state_def parent_dir_def cd_tree.simps

lemma keeps_case_sum:
  "(\<And>x. keeps f (a x)) \<Longrightarrow> (\<And>y. keeps f (b y)) \<Longrightarrow> keeps f (case v of Inl x \<Rightarrow> a x | Inr y \<Rightarrow> b y)"
  by (cases v) simp_all

lemma keeps_result: "keeps f (\<lambda>s. (s, Inr (h s)))"
  by (simp add: keeps_def)

lemma keeps_process_array_id:
  "keeps cfg (process_array_id env site location data tz lib output_dir file_ext x)"
  "keeps saved (process_array_id env site location data tz lib output_dir file_ext x)"
  unfolding process_array_id_def Let_def
  by (intro keeps_intros)+

lemma keeps_process_array_ids:
  "keeps cfg (process_array_ids env site location data tz lib output_dir infos file_ext)"
  "keeps saved (process_array_ids env site location data tz lib output_dir infos file_ext)"
  unfolding process_array_ids_def
  by (intro keeps_intros keeps_process_array_id)+

lemma keeps_call_process_array_ids:
  "keeps cfg (call_process_array_ids env kwargs)"
  "keeps saved (call_process_array_ids env kwargs)"
  unfolding call_process_array_ids_def
  by (intro keeps_intros keeps_case_sum keeps_process_array_ids)+

lemma keeps_saved_assign_location: "keeps saved (assign_location_line_num site location n)"
  by (simp add: keeps_def assign_location_line_num_def split: sum.splits)

lemma commits_assign_location: "commits cfg (assign_location_line_num site location n)"
  by (simp add: commits_def assign_location_line_num_def split: sum.splits)

lemma commits_and_then_total:
  "commits f m \<Longrightarrow> (\<And>a. keeps f (g a)) \<Longrightarrow> (\<And>a s. \<not> isl (snd (g a s)))
   \<Longrightarrow> commits f (and_then m g)"
  unfolding keeps_def commits_def and_then_def
  by (auto split: prod.splits sum.splits) (metis fst_conv snd_conv sum.disc(1))+

lemma keeps_saved_process_location:
  "keeps saved (process_location env output_dir site location location_info track)"
  unfolding process_location_def Let_def
  by (intro keeps_intros keeps_result keeps_call_process_array_ids keeps_saved_assign_location)

lemma keeps_cfg_process_location_untracked:
  "keeps cfg (process_location env output_dir site location location_info False)"
  unfolding process_location_def Let_def
  by (simp only: if_False) (intro keeps_intros keeps_result keeps_call_process_array_ids)

lemma commits_cfg_process_location:
  "commits cfg (process_location env output_dir site location location_info track)"
  unfolding process_location_def Let_def
  by (intro commits_and_then commits_if commits_case_option commits_and_then_total
        commits_assign_location keeps_commits [OF keeps_raises] keeps_commits [OF keeps_returns]
        keeps_commits [OF keeps_result] keeps_result keeps_cfg_call
        keeps_call_process_array_ids) simp_all

lemma keeps_if_not: "\<not> c \<Longrightarrow> keeps f b \<Longrightarrow> keeps f (if c then a else b)"
  by simp

lemma keeps_cfg_process_location_not_tracked:
  "\<not> track \<Longrightarrow> keeps cfg (process_location env output_dir site location location_info track)"
  using keeps_cfg_process_location_untracked by simp

lemma keeps_process_locations:
  "\<not> track \<Longrightarrow> keeps cfg (process_locations env output_dir site track locations)"
  "keeps saved (process_locations env output_dir site track locations)"
  unfolding process_locations_def
  by (intro keeps_intros keeps_cfg_process_location_not_tracked keeps_saved_process_location
        | assumption)+

lemma formatter_process_sites_untracked:
  assumes "\<not> fa_track args"
  shows "cfg (fst (formatter_process_sites env args s)) = cfg s"
    and "saved (fst (formatter_process_sites env args s)) = saved s"
proof -
  let ?od = "case fc_data_output_dir (cfg s) of Some d \<Rightarrow> d | None \<Rightarrow> os_home env"
  let ?run = "and_then
           (case truthy (fa_site args) of
              Some site \<Rightarrow>
                (case map_of (fc_sites (cfg s)) site of
                   None \<Rightarrow> raises KeyError
                 | Some site_info \<Rightarrow>
                     (let locations = si_locations site_info in
                      case truthy (fa_location args) of
                        Some location \<Rightarrow>
                          (case map_of locations location of
                             None \<Rightarrow> raises KeyError
                           | Some location_info \<Rightarrow>
                               and_then
                                 (process_location env ?od site location location_info
                                    (fa_track args))
                                 (\<lambda>_. returns ()))
                      | None \<Rightarrow> process_locations env ?od site (fa_track args) locations))
            | None \<Rightarrow>
                for_each (fc_sites (cfg s)) (\<lambda>(site, site_info).
                  process_locations env ?od site (fa_track args) (si_locations site_info)))
           (\<lambda>_. if fa_track args then save_config else returns ())
           :: (formatter_config, unit) action"
  have eq: "formatter_process_sites env args s = ?run s"
    by (simp add: formatter_process_sites_def Let_def)
  have "keeps cfg ?run"
    unfolding Let_def
    by (intro keeps_intros keeps_if_not [OF assms]
          keeps_cfg_process_location_not_tracked [OF assms] keeps_process_locations(1) [OF assms])
  then show "cfg (fst (formatter_process_sites env args s)) = cfg s"
    unfolding eq by (rule keepsD)
  have "keeps saved ?run"
    unfolding Let_def
    by (intro keeps_intros keeps_if_not [OF assms] keeps_saved_process_location
          keeps_process_locations(2))
  then show "saved (fst (formatter_process_sites env args s)) = saved s"
    unfolding eq by (rule keepsD)
qed

section \<open>The export projector\<close>

text \<open>
  C10. For every table (of rows, that is, of mappings with distinct keys) and every list of
  export columns, \<open>make_export_data_set\<close> returns without error a table with the same
  number of rows in the same order; each output row holds exactly the key/value pairs of
  the corresponding input row whose key is in the export list, in their original relative
  order, and a column absent from an input row is absent from the output row.
\<close>

theorem make_export_data_set_projects:
  assumes "list_all is_row data"
  shows "\<exists>out. make_export_data_set data (Some cols) = Inr out
           \<and> length out = length data
           \<and> (\<forall>i < length data.
                 out ! i = filter (\<lambda>(name, v). name \<in> set cols) (data ! i)
               \<and> set (out ! i) = {(name, v). (name, v) \<in> set (data ! i) \<and> name \<in> set cols}
               \<and> subseq (out ! i) (data ! i)
               \<and> (\<forall>c. c \<notin> fst ` set (data ! i) \<longrightarrow> c \<notin> fst ` set (out ! i)))"
proof -
  let ?keep = "filter (\<lambda>(name, v). name \<in> set cols)"
  have eq: "make_export_data_set data (Some cols) = Inr (map ?keep data)"
    using assms by (simp add: make_export_data_set_def export_rows_eq)
  have "set (?keep r) = {(name, v). (name, v) \<in> set r \<and> name \<in> set cols}" for r :: row
    by auto
  moreover have "subseq (?keep r) r" for r :: row
    by simp
  moreover have "c \<notin> fst ` set r \<Longrightarrow> c \<notin> fst ` set (?keep r)" for c and r :: row
    by auto
  ultimately show ?thesis
    unfolding eq by (intro exI [of _ "map ?keep data"]) simp
qed

theorem make_export_data_set_projects_witness:
  "make_export_data_set
     [[(ColName ''Year'', Raw ''2016''), (ColName ''Day'', Raw ''123''), (ColName ''Temp'', Raw ''4.5'')],
      [(ColName ''Year'', Raw ''2016''), (ColName ''Temp'', Raw ''5.0'')]]
     (Some [ColName ''Temp'', ColName ''Day''])
   = Inr [[(ColName ''Day'', Raw ''123''), (ColName ''Temp'', Raw ''4.5'')],
          [(ColName ''Temp'', Raw ''5.0'')]]"
proof -
  let ?data = "[[(ColName ''Year'', Raw ''2016''), (ColName ''Day'', Raw ''123''), (ColName ''Temp'', Raw ''4.5'')],
      [(ColName ''Year'', Raw ''2016''), (ColName ''Temp'', Raw ''5.0'')]]"
  have rows: "list_all is_row ?data"
    by (simp add: is_row_def)
  from make_export_data_set_projects [OF rows, of "[ColName ''Temp'', ColName ''Day'']"]
  obtain out where out: "make_export_data_set ?data (Some [ColName ''Temp'', ColName ''Day'']) = Inr out"
    and len: "length out = length ?data"
    and each: "\<forall>i < length ?data. out ! i = filter (\<lambda>(name, v). name \<in> set [ColName ''Temp'', ColName ''Day'']) (?data ! i)"
    by blast
  from len obtain a b where ab: "out = [a, b]"
    by (auto simp: length_Suc_conv numeral_2_eq_2)
  from each have "out ! 0 = [(ColName ''Day'', Raw ''123''), (ColName ''Temp'', Raw ''4.5'')]"
    by simp
  moreover from each have "out ! 1 = [(ColName ''Temp'', Raw ''5.0'')]"
    by simp
  ultimately have "out = [[(ColName ''Day'', Raw ''123''), (ColName ''Temp'', Raw ''4.5'')],
          [(ColName ''Temp'', Raw ''5.0'')]]"
    by (simp add: ab)
  with out show ?thesis by simp
qed

section \<open>The array demultiplexer\<close>

text \<open>
  C8. For every array-id demultiplex (column-name assignment with mismatch detection) the
  number of named rows plus the number of mismatched rows is the number of input rows.
  The rows whose field count differs from the schema width are exactly the mismatch set,
  unmodified and in order, the others are the named rows, and no error is raised.
\<close>

theorem update_column_names_conserves_rows:
  "length (fst (update_column_names data column_names))
     + length (snd (update_column_names data column_names)) = length data
   \<and> snd (update_column_names data column_names)
       = filter (\<lambda>row. length row \<noteq> length column_names) data
   \<and> fst (update_column_names data column_names)
       = map (\<lambda>row. Row (zip column_names (map snd row)))
           (filter (\<lambda>row. length row = length column_names) data)"
proof -
  have "length (fst (update_column_names data column_names))
     + length (snd (update_column_names data column_names)) = length data"
    using assign_column_names_lengths [of column_names data "[]" "[]"]
    by (cases "assign_column_names column_names data ([], [])")
       (simp add: update_column_names_def)
  then show ?thesis
    by (simp add: update_column_names_def assign_column_names_mismatched
        assign_column_names_named)
qed

section \<open>Conversion and the columns of a row\<close>




section \<open>The call of \<open>process_array_ids\<close>\<close>

text \<open>
  C1. For every location whose read yields at least one new row, \<open>process_location\<close>
  raises a \<open>TypeError\<close>, and the state it leaves has the configuration and the saved
  configuration unchanged and a trace extended by the read alone: no array id was
  processed, no output file written, no checkpoint advanced. The keyword
  \<open>array_ids_data\<close> of the call is not a parameter of \<open>process_array_ids\<close>, and a call
  with that keyword raises a \<open>TypeError\<close> before the body starts.
\<close>

theorem process_location_raises_TypeError:
  assumes "arrays_reply env (trace s @ [location_read location_info]) = Inr data"
    and "0 < sum_list (map (\<lambda>(array_id, array_id_data). length array_id_data) data)"
  shows "process_location env output_dir site location location_info track s
           = (s\<lparr>trace := trace s @ [location_read location_info]\<rparr>, Inl TypeError)
         \<and> ''array_ids_data'' \<notin> set process_array_ids_params
         \<and> (\<forall>kwargs s'. ''array_ids_data'' \<in> fst ` set kwargs \<longrightarrow>
               call_process_array_ids env kwargs s' = ((s' :: formatter_config state), Inl TypeError))"
  using process_location_new_rows [OF assms]
  by (simp add: process_array_ids_params_def array_ids_data_unexpected)

theorem process_location_raises_TypeError_witness:
  "process_location (example_env [(''Temperature'', example_rows)] [] []) ''/out'' ''siteA'' ''loc1''
     example_location False (initial_state example_formatter_config)
   = (\<lparr>cfg = example_formatter_config, saved = None,
       trace = [ReadArrayIdsData (Some ''/data/logger.dat'') 10 [(''1'', ''Temperature'')]]\<rparr>,
      Inl TypeError)"
  using process_location_raises_TypeError
    [of "example_env [(''Temperature'', example_rows)] [] []"
        "initial_state example_formatter_config" example_location
        "[(''Temperature'', example_rows)]" "''/out''" "''siteA''" "''loc1''" False]
  by (simp add: example_env_def example_rows_def initial_state_def location_read_def
      example_location_def example_schema_def get_or_def)

section \<open>No new rows\<close>

text \<open>
  C7. For every location whose read since the stored checkpoint yields zero new rows,
  \<open>process_location\<close> returns the configuration, and the state it leaves has the
  configuration and the saved configuration unchanged and a trace extended by the read
  alone (no output file is created or modified), whether tracking is enabled or not.
\<close>

theorem process_location_no_new_rows:
  assumes "arrays_reply env (trace s @ [location_read location_info]) = Inr data"
    and "sum_list (map (\<lambda>(array_id, array_id_data). length array_id_data) data) = 0"
  shows "process_location env output_dir site location location_info track s
           = (s\<lparr>trace := trace s @ [location_read location_info]\<rparr>, Inr (cfg s))"
  using assms by (rule process_location_empty_delta)

theorem process_location_no_new_rows_witness:
  "process_location (example_env [(''Temperature'', [])] [] []) ''/out'' ''siteA'' ''loc1''
     example_location True (initial_state example_formatter_config)
   = (\<lparr>cfg = example_formatter_config, saved = None,
       trace = [ReadArrayIdsData (Some ''/data/logger.dat'') 10 [(''1'', ''Temperature'')]]\<rparr>,
      Inr example_formatter_config)"
  using process_location_no_new_rows
    [of "example_env [(''Temperature'', [])] [] []"
        "initial_state example_formatter_config" example_location
        "[(''Temperature'', [])]" "''/out''" "''siteA''" "''loc1''" True]
  by (simp add: example_env_def initial_state_def location_read_def
      example_location_def example_schema_def get_or_def)

section \<open>Unsupported conversions\<close>

text \<open>
  C9. When the conversions declared for an array id hold a specification whose
  \<open>value_type\<close> is not \<open>time\<close>, and the specifications before it are time conversions that
  the parser accepts, \<open>convert_data_column_values\<close> raises the unsupported-conversion
  error, whatever the parser would do for that column. In \<open>process_array_ids\<close> the error
  ends the run in exactly the state the earlier array ids left: their exports stand in
  the trace, and nothing is written for the failing array id or the later ones.
\<close>

theorem unsupported_conversion_raises:
  assumes "map_of data (get_or (ai_name info) array_id) = Some rows" and "rows \<noteq> []"
    and "ai_convert_data_column_values info = Some (pre @ (column_name, ci) # post)"
    and "value_type ci \<noteq> Some ''time''"
    and "list_all (\<lambda>(c, i). value_type i = Some ''time''
           \<and> \<not> isl (cr_parse_time env (fst (update_column_names rows (ai_column_names info)))
                       time_zone lib c (value_time_columns i) (Some c)
                       (get_or (ai_to_utc info) False))) pre"
    and "process_array_ids env site location data time_zone lib output_dir earlier file_ext s
           = (s1, Inr ())"
  shows "convert_data_column_values (cr_parse_time env)
           (fst (update_column_names rows (ai_column_names info)))
           (pre @ (column_name, ci) # post) time_zone lib (get_or (ai_to_utc info) False)
           = Inl UnsupportedValueConversionType
       \<and> process_array_ids env site location data time_zone lib output_dir
           (earlier @ (array_id, info) # later) file_ext s
           = (s1, Inl UnsupportedValueConversionType)"
proof -
  have a: "convert_data_column_values (cr_parse_time env)
           (fst (update_column_names rows (ai_column_names info)))
           (pre @ (column_name, ci) # post) time_zone lib (get_or (ai_to_utc info) False)
           = Inl UnsupportedValueConversionType"
    using assms(5,4) by (rule convert_data_column_values_unsupported)
  have b: "process_array_id env site location data time_zone lib output_dir file_ext (array_id, info) s1
           = (s1, Inl UnsupportedValueConversionType)"
    using assms(1-5) by (rule process_array_id_unsupported)
  have "process_array_ids env site location data time_zone lib output_dir
           (earlier @ (array_id, info) # later) file_ext s
           = (s1, Inl UnsupportedValueConversionType)"
    using assms(6) b
    by (simp add: process_array_ids_def for_each_append and_then_def)
  with a show ?thesis by simp
qed

theorem unsupported_conversion_raises_witness:
  "process_array_ids (example_env [] [] []) ''siteA'' ''loc1''
     [(''Temperature'', example_rows), (''Humidity'', example_rows)] (Some ''UTC'') None ''/out''
     [(''1'', example_schema), (''2'', example_schema_float), (''3'', example_schema)] ''.dat''
     (initial_state example_formatter_config)
   = (\<lparr>cfg = example_formatter_config, saved = None,
       trace =
         [ExportToCsv
            [[(ColName ''Temp'', Raw ''4.5''), (ColName ''Timestamp'', DateTime 0)],
             [(ColName ''Temp'', Raw ''5.0''), (ColName ''Timestamp'', DateTime 0)]]
            ''/out/siteA/loc1/Temperature.dat'' (Some True) (Some False),
          ExportToCsv
            [[(ColIndex 0, Raw ''2016''), (ColIndex 1, Raw ''122''), (ColIndex 2, Raw ''1300'')]]
            ''/out/siteA/loc1/Temperature Mismatches.dat'' None None]\<rparr>,
      Inl UnsupportedValueConversionType)"
proof -
  let ?env = "example_env [] [] [] :: env"
  let ?data = "[(''Temperature'', example_rows), (''Humidity'', example_rows)]"
  let ?s1 = "\<lparr>cfg = example_formatter_config, saved = None,
       trace =
         [ExportToCsv
            [[(ColName ''Temp'', Raw ''4.5''), (ColName ''Timestamp'', DateTime 0)],
             [(ColName ''Temp'', Raw ''5.0''), (ColName ''Timestamp'', DateTime 0)]]
            ''/out/siteA/loc1/Temperature.dat'' (Some True) (Some False),
          ExportToCsv
            [[(ColIndex 0, Raw ''2016''), (ColIndex 1, Raw ''122''), (ColIndex 2, Raw ''1300'')]]
            ''/out/siteA/loc1/Temperature Mismatches.dat'' None None]\<rparr>"
  have earlier: "process_array_ids ?env ''siteA'' ''loc1'' ?data (Some ''UTC'') None ''/out''
      [(''1'', example_schema)] ''.dat'' (initial_state example_formatter_config) = (?s1, Inr ())"
    by (simp add: process_array_ids_def process_array_id_def example_env_def example_rows_def
        example_schema_def initial_state_def get_or_def Let_def update_column_names_def Row_def
        and_then_def lift_result_def make_export_data_set_def call_def returns_def)
  have lookup: "map_of ?data (get_or (ai_name example_schema_float) ''2'') = Some example_rows"
    by (simp add: example_schema_float_def example_schema_def get_or_def)
  have rows: "example_rows \<noteq> []"
    by (simp add: example_rows_def)
  have conv: "ai_convert_data_column_values example_schema_float
      = Some ([(ColName ''Hour'', \<lparr>value_type = Some ''time'', value_time_columns = Some [ColName ''Hour'']\<rparr>)]
               @ (ColName ''Temp'', \<lparr>value_type = Some ''float'', value_time_columns = None\<rparr>) # [])"
    by (simp add: example_schema_float_def example_schema_def)
  have bad: "value_type \<lparr>value_type = Some ''float'', value_time_columns = None\<rparr> \<noteq> Some ''time''"
    by simp
  have pre: "list_all (\<lambda>(c, i). value_type i = Some ''time''
           \<and> \<not> isl (cr_parse_time ?env (fst (update_column_names example_rows (ai_column_names example_schema_float)))
                       (Some ''UTC'') None c (value_time_columns i) (Some c)
                       (get_or (ai_to_utc example_schema_float) False)))
         [(ColName ''Hour'', \<lparr>value_type = Some ''time'', value_time_columns = Some [ColName ''Hour'']\<rparr>)]"
    by (simp add: example_env_def)
  from unsupported_conversion_raises [OF lookup rows conv bad pre earlier, where later = "[(''3'', example_schema)]"]
  show ?thesis by simp
qed

section \<open>The checkpoint of a tracked run\<close>

text \<open>
  C2. The scenario of section 8 of the specification, run with tracking: the checkpoint
  is 10 and the read yields three new rows. The claim puts the checkpoint at 13 after
  the run; \<open>process_location\<close> raises the \<open>TypeError\<close> of its call of
  \<open>process_array_ids\<close>, and the configuration it leaves still holds 10.
\<close>

theorem tracked_run_checkpoint_stays:
  "process_location (example_env [(''Temperature'', example_rows)] [] []) ''/out'' ''siteA'' ''loc1''
     example_location True (initial_state example_formatter_config)
   = (\<lparr>cfg = example_formatter_config, saved = None,
       trace = [ReadArrayIdsData (Some ''/data/logger.dat'') 10 [(''1'', ''Temperature'')]]\<rparr>,
      Inl TypeError)
   \<and> map_option li_line_num
       (map_of (si_locations (the (map_of (fc_sites example_formatter_config) ''siteA''))) ''loc1'')
     = Some (Some 10)
   \<and> length example_rows = 3"
  using process_location_new_rows
    [of "example_env [(''Temperature'', example_rows)] [] []"
        "initial_state example_formatter_config" example_location
        "[(''Temperature'', example_rows)]" "''/out''" "''siteA''" "''loc1''" True]
  by (simp add: example_env_def example_rows_def initial_state_def location_read_def
      example_location_def example_schema_def get_or_def example_formatter_config_def)

section \<open>Persistence of the checkpoints of a remote-sync run\<close>

text \<open>
  C4. In a remote-sync run (\<open>process_sites\<close> of the uploader) the configuration in
  durable storage is, after the run: the configuration in memory as the \<open>try\<close> body left
  it, when the body (the whole traversal of sites, locations and files) completed without
  raising; and what it was before the run in every other case, that is, when
  \<open>session.pwd()\<close> or anything in the body raised. So the checkpoints are persisted if and
  only if the traversal completes, and the advancements made before an exception are not
  persisted.
\<close>

theorem uploader_persists_iff_try_completes:
  "saved (fst (uploader_process_sites env args s)) =
     (case call (pwd_reply env) Pwd s of
        (s1, Inl e) \<Rightarrow> saved s
      | (s1, Inr root_dir) \<Rightarrow>
          (case process_sites_try env args
                  (case uc_data_output_dir (cfg s) of Some d \<Rightarrow> d | None \<Rightarrow> os_home env)
                  (uc_sites (cfg s)) root_dir s1 of
             (s2, Inl e) \<Rightarrow> saved s
           | (s2, Inr u) \<Rightarrow> Some (cfg s2)))"
proof -
  let ?od = "case uc_data_output_dir (cfg s) of Some d \<Rightarrow> d | None \<Rightarrow> os_home env"
  obtain s1 r1 where p: "call (pwd_reply env) Pwd s = (s1, r1)"
    by (cases "call (pwd_reply env) Pwd s")
  have s1: "saved s1 = saved s"
    using keepsD [OF keeps_saved_call, of "pwd_reply env" Pwd s] by (simp add: p)
  show ?thesis
  proof (cases r1)
    case (Inl e)
    with p s1 show ?thesis
      by (simp add: uploader_process_sites_def Let_def)
  next
    case (Inr root_dir)
    obtain s2 r2 where t: "process_sites_try env args ?od (uc_sites (cfg s)) root_dir s1 = (s2, r2)"
      by (cases "process_sites_try env args ?od (uc_sites (cfg s)) root_dir s1")
    have s2: "saved s2 = saved s"
      using keepsD [OF keeps_saved_process_sites_try, of env args ?od "uc_sites (cfg s)" root_dir s1]
      by (simp add: t s1)
    note call_saved = keepsD [OF keeps_saved_call]
    show ?thesis
    proof (cases r2)
      case (Inl e)
      have k1: "keeps saved (and_then (call (\<lambda>_. Inr ()) (Print e))
                  (\<lambda>_. call (unit_reply env) Quit) :: (uploader_config, unit) action)"
        by (intro keeps_intros)
      have k2: "keeps saved (and_then (call (unit_reply env) Quit)
                  (\<lambda>_. raises e) :: (uploader_config, unit) action)"
        by (intro keeps_intros)
      from p Inr t Inl s2 show ?thesis
        by (simp add: uploader_process_sites_def Let_def keepsD [OF k1] keepsD [OF k2])
    next
      case r: (Inr u)
      with p Inr t show ?thesis
        by (simp add: uploader_process_sites_def Let_def and_then_def save_config_def call_saved)
    qed
  qed
qed

theorem uploader_persists_iff_try_completes_witness:
  "saved (fst (uploader_process_sites (example_env [] example_rows [])
      \<lparr>ua_site = None, ua_location = None, ua_file = None\<rparr>
      (initial_state (example_uploader_config
         [(''Foo'', example_file), (''Bar'', example_file_no_path)])))) = None
   \<and> saved (fst (uploader_process_sites (example_env [] example_rows [''Foo.dat''])
      \<lparr>ua_site = Some ''siteA'', ua_location = None, ua_file = None\<rparr>
      (initial_state (example_uploader_config [(''Foo'', example_file)]))))
     = Some (example_uploader_config [(''Foo'', example_file\<lparr>fi_line_num := Some 13\<rparr>)])"
proof -
  have a: "saved (fst (uploader_process_sites (example_env [] example_rows [])
      \<lparr>ua_site = None, ua_location = None, ua_file = None\<rparr>
      (initial_state (example_uploader_config
         [(''Foo'', example_file), (''Bar'', example_file_no_path)])))) = None"
    by (subst uploader_persists_iff_try_completes) (simp add: run_defs)
  have b: "saved (fst (uploader_process_sites (example_env [] example_rows [''Foo.dat''])
      \<lparr>ua_site = Some ''siteA'', ua_location = None, ua_file = None\<rparr>
      (initial_state (example_uploader_config [(''Foo'', example_file)]))))
     = Some (example_uploader_config [(''Foo'', example_file\<lparr>fi_line_num := Some 13\<rparr>)])"
    by (subst uploader_persists_iff_try_completes) (simp add: run_defs)
  from a b show ?thesis by simp
qed

section \<open>Create or append\<close>

text \<open>
  C6. For every file transfer that reads at least one new row, creates the staging
  directory and obtains the remote listing: when the target file name is absent from the
  listing, \<open>transfer_rows\<close> exports the rows with a header and sends the staged file with
  \<open>STOR\<close>; when it is present, it exports the rows without header and sends the file with
  \<open>APPE\<close>. The events after the export are a prefix of opening the file, sending it with
  that command and removing it, and all three when the transfer returns.
\<close>

theorem transfer_rows_create_or_append:
  assumes "fi_file_path file_info = Some path"
    and "file_name = get_or (fi_name file_info) file @ os_splitext_ext env (os_abspath env path)"
    and "out = os_join env [os_abspath env output_dir, site, location, file_name]"
    and "table_reply env (trace s @ [file_read file_info]) = Inr data"
    and "data \<noteq> []"
    and "unit_reply env (trace s @ [file_read file_info, Makedirs (os_dirname env out)]) = Inr ()"
    and "nlst_reply env (trace s @ [file_read file_info, Makedirs (os_dirname env out), Nlst])
           = Inr listing"
    and "command = (if file_name \<notin> set listing then ''STOR '' else ''APPE '')"
  shows "\<exists>rest.
           trace (fst (transfer_rows env output_dir site location file file_info s))
             = trace s @ [file_read file_info, Makedirs (os_dirname env out), Nlst,
                          ExportToCsv data out (Some (file_name \<notin> set listing)) None] @ rest
         \<and> prefix rest [OpenRb out, StorBinary (command @ file_name) out, Remove out]
         \<and> (snd (transfer_rows env output_dir site location file file_info s) = Inr ()
              \<longrightarrow> rest = [OpenRb out, StorBinary (command @ file_name) out, Remove out])"
proof -
  let ?t3 = "trace s @ [file_read file_info, Makedirs (os_dirname env out), Nlst]"
  let ?ex = "ExportToCsv data out (Some (file_name \<notin> set listing)) None"
  let ?st = "StorBinary (command @ file_name) out"
  let ?s3 = "s\<lparr>trace := ?t3\<rparr>"
  let ?final = "case fi_line_num file_info of
                  None \<Rightarrow> raises TypeError
                | Some n \<Rightarrow> assign_file_line_num site location file (n + int (length data))"
  let ?tail = "and_then
                 (and_then (call (unit_reply env) ?ex)
                    (\<lambda>_. and_then (call (unit_reply env) (OpenRb out))
                       (\<lambda>_. call (unit_reply env) ?st)))
                 (\<lambda>_. and_then (call (unit_reply env) (Remove out)) (\<lambda>_. ?final))"
  have n: "int (length data) \<noteq> 0"
    using assms(5) by simp
  have unfold: "transfer_rows env output_dir site location file file_info s = ?tail ?s3"
  proof (cases "file_name \<in> set listing")
    case True
    with assms(1-4,6-8) n show ?thesis
      by (simp add: transfer_rows_def Let_def file_read_def and_then_Inr call_apply)
  next
    case False
    with assms(1-4,6-8) n show ?thesis
      by (simp add: transfer_rows_def Let_def file_read_def and_then_Inr call_apply)
  qed
  have final: "trace (fst (?final s')) = trace s'" for s' :: "uploader_config state"
    by (cases "fi_line_num file_info")
       (simp_all add: raises_def keepsD [OF keeps_trace_assign_file])
  obtain r1 where r1: "unit_reply env (?t3 @ [?ex]) = r1" by simp
  obtain r2 where r2: "unit_reply env (?t3 @ [?ex, OpenRb out]) = r2" by simp
  obtain r3 where r3: "unit_reply env (?t3 @ [?ex, OpenRb out, ?st]) = r3" by simp
  obtain r4 where r4: "unit_reply env (?t3 @ [?ex, OpenRb out, ?st, Remove out]) = r4" by simp
  show ?thesis
  proof (cases r1)
    case (Inl e)
    with r1 show ?thesis
      unfolding unfold by (simp add: and_then_def call_apply)
  next
    case i1: (Inr u1)
    show ?thesis
    proof (cases r2)
      case (Inl e)
      with r1 i1 r2 show ?thesis
        unfolding unfold by (simp add: and_then_def call_apply)
    next
      case i2: (Inr u2)
      show ?thesis
      proof (cases r3)
        case (Inl e)
        with r1 i1 r2 i2 r3 show ?thesis
          unfolding unfold by (simp add: and_then_def call_apply)
      next
        case i3: (Inr u3)
        show ?thesis
        proof (cases r4)
          case (Inl e)
          with r1 i1 r2 i2 r3 i3 r4 show ?thesis
            unfolding unfold by (simp add: and_then_def call_apply)
        next
          case i4: (Inr u4)
          with r1 i1 r2 i2 r3 i3 r4 show ?thesis
            unfolding unfold by (simp add: and_then_def call_apply final)
        qed
      qed
    qed
  qed
qed

theorem transfer_rows_create_or_append_witness:
  "trace (fst (transfer_rows (example_env [] example_rows []) ''/tmp'' ''siteA'' ''loc1'' ''Foo''
      example_file (initial_state (example_uploader_config [(''Foo'', example_file)]))))
   = [ReadTableData (Some ''/out/siteA/loc1/Foo.dat'') (Some 0) (Some 10),
      Makedirs ''/tmp/siteA/loc1'', Nlst,
      ExportToCsv example_rows ''/tmp/siteA/loc1/Foo.dat'' (Some True) None,
      OpenRb ''/tmp/siteA/loc1/Foo.dat'',
      StorBinary ''STOR Foo.dat'' ''/tmp/siteA/loc1/Foo.dat'',
      Remove ''/tmp/siteA/loc1/Foo.dat'']
   \<and> trace (fst (transfer_rows (example_env [] example_rows [''Foo.dat'']) ''/tmp'' ''siteA'' ''loc1''
      ''Foo'' example_file (initial_state (example_uploader_config [(''Foo'', example_file)]))))
   = [ReadTableData (Some ''/out/siteA/loc1/Foo.dat'') (Some 0) (Some 10),
      Makedirs ''/tmp/siteA/loc1'', Nlst,
      ExportToCsv example_rows ''/tmp/siteA/loc1/Foo.dat'' (Some False) None,
      OpenRb ''/tmp/siteA/loc1/Foo.dat'',
      StorBinary ''APPE Foo.dat'' ''/tmp/siteA/loc1/Foo.dat'',
      Remove ''/tmp/siteA/loc1/Foo.dat'']"
proof -
  let ?s = "initial_state (example_uploader_config [(''Foo'', example_file)])"
  have ok: "snd (transfer_rows (example_env [] example_rows listing) ''/tmp'' ''siteA'' ''loc1''
      ''Foo'' example_file ?s) = Inr ()" for listing
    by (simp add: run_defs)
  have rows: "example_rows \<noteq> []"
    by (simp add: example_rows_def)
  have a: "\<exists>rest.
      trace (fst (transfer_rows (example_env [] example_rows listing) ''/tmp'' ''siteA'' ''loc1''
        ''Foo'' example_file ?s))
        = trace ?s @ [file_read example_file, Makedirs ''/tmp/siteA/loc1'', Nlst,
             ExportToCsv example_rows ''/tmp/siteA/loc1/Foo.dat''
               (Some (''Foo.dat'' \<notin> set listing)) None] @ rest
      \<and> prefix rest [OpenRb ''/tmp/siteA/loc1/Foo.dat'',
             StorBinary ((if ''Foo.dat'' \<notin> set listing then ''STOR '' else ''APPE '') @ ''Foo.dat'')
               ''/tmp/siteA/loc1/Foo.dat'',
             Remove ''/tmp/siteA/loc1/Foo.dat'']
      \<and> (snd (transfer_rows (example_env [] example_rows listing) ''/tmp'' ''siteA'' ''loc1''
             ''Foo'' example_file ?s) = Inr ()
           \<longrightarrow> rest = [OpenRb ''/tmp/siteA/loc1/Foo.dat'',
             StorBinary ((if ''Foo.dat'' \<notin> set listing then ''STOR '' else ''APPE '') @ ''Foo.dat'')
               ''/tmp/siteA/loc1/Foo.dat'',
             Remove ''/tmp/siteA/loc1/Foo.dat''])" for listing
    using transfer_rows_create_or_append
      [of example_file "''/out/siteA/loc1/Foo.dat''" "''Foo.dat''" "''Foo''"
          "example_env [] example_rows listing" "''/tmp/siteA/loc1/Foo.dat''"
          "''/tmp''" "''siteA''" "''loc1''" ?s example_rows listing
          "if ''Foo.dat'' \<notin> set listing then ''STOR '' else ''APPE ''"]
    by (simp add: example_env_def example_file_def get_or_def parent_dir_def rows)
  from a [of "[]"] ok [of "[]"] a [of "[''Foo.dat'']"] ok [of "[''Foo.dat'']"]
  show ?thesis
    by (auto simp: initial_state_def file_read_def example_file_def)
qed

section \<open>When the checkpoint is mutated\<close>

text \<open>
  C5, as stated, fails for the uploader: it has no tracking option, and a run of its
  \<open>process_sites\<close> that nobody asked to track advances the checkpoint of the file from
  10 to 13, in memory and in durable storage.
\<close>

theorem uploader_advances_without_tracking:
  "cfg (fst (uploader_process_sites (example_env [] example_rows [])
      \<lparr>ua_site = None, ua_location = None, ua_file = None\<rparr>
      (initial_state (example_uploader_config [(''Foo'', example_file)]))))
     = example_uploader_config [(''Foo'', example_file\<lparr>fi_line_num := Some 13\<rparr>)]
   \<and> saved (fst (uploader_process_sites (example_env [] example_rows [])
      \<lparr>ua_site = None, ua_location = None, ua_file = None\<rparr>
      (initial_state (example_uploader_config [(''Foo'', example_file)]))))
     = Some (example_uploader_config [(''Foo'', example_file\<lparr>fi_line_num := Some 13\<rparr>)])
   \<and> fi_line_num example_file = Some 10"
  by (simp add: uploader_process_sites_def save_config_def run_defs)

text \<open>
  C5, amended. In the formatter, a run of \<open>process_location\<close> that is not tracked or that
  raises leaves the configuration unchanged, and an untracked \<open>process_sites\<close> leaves both
  the configuration in memory and the saved one unchanged. In the uploader, which has no
  tracking option, a run of \<open>transfer_rows\<close> that raises leaves the configuration
  unchanged; a run that returns leaves it unchanged when no row was read, and otherwise
  has assigned the file's \<open>line_num\<close> its old value plus the number of rows read.
\<close>

theorem checkpoint_mutation_frame:
  "((\<not> track \<or> isl (snd (process_location env output_dir site location location_info track s)))
      \<longrightarrow> cfg (fst (process_location env output_dir site location location_info track s)) = cfg s)
   \<and> (\<not> fa_track args
      \<longrightarrow> cfg (fst (formatter_process_sites env args s)) = cfg s
        \<and> saved (fst (formatter_process_sites env args s)) = saved s)
   \<and> (isl (snd (transfer_rows env' output_dir' site' location' file' file_info u))
      \<longrightarrow> cfg (fst (transfer_rows env' output_dir' site' location' file' file_info u)) = cfg u)
   \<and> (table_reply env' (trace u @ [file_read file_info]) = Inr data
      \<and> snd (transfer_rows env' output_dir' site' location' file' file_info u) = Inr ()
      \<longrightarrow> (if data = []
           then cfg (fst (transfer_rows env' output_dir' site' location' file' file_info u)) = cfg u
           else \<exists>n. fi_line_num file_info = Some n
                  \<and> set_file_line_num site' location' file' (n + int (length data)) (cfg u)
                      = Inr (cfg (fst (transfer_rows env' output_dir' site' location' file'
                                         file_info u)))))"
proof (intro conjI impI)
  assume "\<not> track \<or> isl (snd (process_location env output_dir site location location_info track s))"
  then show "cfg (fst (process_location env output_dir site location location_info track s)) = cfg s"
  proof
    assume "\<not> track"
    then show ?thesis
      using keepsD [OF keeps_cfg_process_location_untracked] by simp
  next
    assume "isl (snd (process_location env output_dir site location location_info track s))"
    then show ?thesis
      by (rule commitsD [OF commits_cfg_process_location])
  qed
next
  assume "\<not> fa_track args"
  then show "cfg (fst (formatter_process_sites env args s)) = cfg s"
    by (rule formatter_process_sites_untracked)
next
  assume "\<not> fa_track args"
  then show "saved (fst (formatter_process_sites env args s)) = saved s"
    by (rule formatter_process_sites_untracked)
next
  assume "isl (snd (transfer_rows env' output_dir' site' location' file' file_info u))"
  then show "cfg (fst (transfer_rows env' output_dir' site' location' file' file_info u)) = cfg u"
    by (rule commitsD [OF commits_cfg_transfer_rows])
next
  assume a: "table_reply env' (trace u @ [file_read file_info]) = Inr data
      \<and> snd (transfer_rows env' output_dir' site' location' file' file_info u) = Inr ()"
  obtain u' r where t: "transfer_rows env' output_dir' site' location' file' file_info u = (u', r)"
    by (cases "transfer_rows env' output_dir' site' location' file' file_info u")
  with a have r: "r = Inr ()" by simp
  from transfer_rows_advances [OF conjunct1 [OF a] t [unfolded r]]
  show "if data = []
           then cfg (fst (transfer_rows env' output_dir' site' location' file' file_info u)) = cfg u
           else \<exists>n. fi_line_num file_info = Some n
                  \<and> set_file_line_num site' location' file' (n + int (length data)) (cfg u)
                      = Inr (cfg (fst (transfer_rows env' output_dir' site' location' file'
                                         file_info u)))"
    by (simp add: t)
qed

theorem checkpoint_mutation_frame_witness:
  "cfg (fst (process_location (example_env [(''Temperature'', example_rows)] [] []) ''/out''
       ''siteA'' ''loc1'' example_location False (initial_state example_formatter_config)))
     = example_formatter_config
   \<and> cfg (fst (transfer_rows (example_env [] example_rows []) ''/tmp'' ''siteA'' ''loc1'' ''Bar''
       example_file_no_path
       (initial_state (example_uploader_config [(''Bar'', example_file_no_path)]))))
     = example_uploader_config [(''Bar'', example_file_no_path)]
   \<and> set_file_line_num ''siteA'' ''loc1'' ''Foo'' 13 (example_uploader_config [(''Foo'', example_file)])
     = Inr (cfg (fst (transfer_rows (example_env [] example_rows []) ''/tmp'' ''siteA'' ''loc1''
         ''Foo'' example_file (initial_state (example_uploader_config [(''Foo'', example_file)])))))"
proof -
  let ?fenv = "example_env [(''Temperature'', example_rows)] [] []"
  let ?uenv = "example_env [] example_rows []"
  let ?fs = "initial_state example_formatter_config"
  let ?args = "\<lparr>fa_site = None, fa_location = None, fa_track = False\<rparr>"
  let ?u1 = "initial_state (example_uploader_config [(''Bar'', example_file_no_path)])"
  let ?u2 = "initial_state (example_uploader_config [(''Foo'', example_file)])"
  have raised: "isl (snd (transfer_rows ?uenv ''/tmp'' ''siteA'' ''loc1'' ''Bar''
       example_file_no_path ?u1))"
    by (simp add: transfer_rows_def Let_def example_file_no_path_def raises_def)
  have returned: "snd (transfer_rows ?uenv ''/tmp'' ''siteA'' ''loc1'' ''Foo'' example_file ?u2)
      = Inr ()"
    by (simp add: run_defs)
  have read: "table_reply ?uenv (trace ?u2 @ [file_read example_file]) = Inr example_rows"
    by (simp add: example_env_def)
  have rows: "example_rows \<noteq> []" "int (length example_rows) = 3"
    by (simp_all add: example_rows_def)
  have ln: "fi_line_num example_file = Some 10"
    by (simp add: example_file_def)
  from checkpoint_mutation_frame
    [where track = False and env = ?fenv and output_dir = "''/out''" and site = "''siteA''"
       and location = "''loc1''" and location_info = example_location and s = ?fs
       and args = ?args and env' = ?uenv and output_dir' = "''/tmp''" and site' = "''siteA''"
       and location' = "''loc1''" and file' = "''Bar''" and file_info = example_file_no_path
       and u = ?u1 and data = example_rows]
  have a: "cfg (fst (process_location ?fenv ''/out'' ''siteA'' ''loc1'' example_location False ?fs))
      = cfg ?fs"
    and b: "cfg (fst (transfer_rows ?uenv ''/tmp'' ''siteA'' ''loc1'' ''Bar''
       example_file_no_path ?u1)) = cfg ?u1"
    using raised by simp_all
  from checkpoint_mutation_frame
    [where track = False and env = ?fenv and output_dir = "''/out''" and site = "''siteA''"
       and location = "''loc1''" and location_info = example_location and s = ?fs
       and args = ?args and env' = ?uenv and output_dir' = "''/tmp''" and site' = "''siteA''"
       and location' = "''loc1''" and file' = "''Foo''" and file_info = example_file
       and u = ?u2 and data = example_rows]
  have c: "set_file_line_num ''siteA'' ''loc1'' ''Foo'' 13 (cfg ?u2)
      = Inr (cfg (fst (transfer_rows ?uenv ''/tmp'' ''siteA'' ''loc1'' ''Foo'' example_file ?u2)))"
    using returned read rows ln by simp
  from a b c show ?thesis
    by (simp add: initial_state_def)
qed

end
